theory Spec2Isabelle
  imports Complex_Main "HOL-Library.Word" "HOL-Library.Signed_Division"
begin

unbundle bit_operations_syntax

section \<open>The VarioMS5611 driver: data model\<close>

text \<open>
  The C++ class \<^verbatim>\<open>VarioMS5611\<close> (\<^verbatim>\<open>VarioMS5611.h\<close>, \<^verbatim>\<open>VarioMS5611.cpp\<close>) is embedded with
  explicit state passing: every member function takes the object (and, where it talks to
  the bus or the clock, the outside world) and returns the updated one.

  Machine integers are words: \<^verbatim>\<open>uint8_t\<close>, \<^verbatim>\<open>uint16_t\<close>, \<^verbatim>\<open>uint32_t\<close>/\<^verbatim>\<open>int32_t\<close> and
  \<^verbatim>\<open>int64_t\<close> are \<open>8 word\<close>, \<open>16 word\<close>, \<open>32 word\<close> and \<open>64 word\<close>; a signed value is the
  same bit pattern read by \<open>sint\<close>.  \<^verbatim>\<open>unsigned long\<close> is 32 bits on the Arduino targets.
  The width of \<^verbatim>\<open>int\<close>/\<^verbatim>\<open>unsigned int\<close> differs between the boards the library builds for
  (16 bits on AVR, whose old core header \<^verbatim>\<open>WProgram.h\<close> the source still includes, 32 bits
  on ESP and ARM), so the two members of that type have the type parameter \<open>'u\<close>, used below
  at \<open>'w word\<close> for an arbitrary width \<open>'w\<close>.  Signed overflow, which C++ leaves undefined,
  wraps around here as it does on these targets.

  \<^verbatim>\<open>double\<close> is idealised as \<open>real\<close>: rounding, infinities and NaN are not represented.

  The members of the extended interface (\<^verbatim>\<open>myReadsCnt\<close>, \<^verbatim>\<open>myReadsCntTimer\<close>,
  \<^verbatim>\<open>myReadsPerSecond\<close>) are compiled only under \<^verbatim>\<open>VARIO_EXTENDED_INTERFACE\<close>, which no
  file defines; they and the two members that no function touches
  (\<^verbatim>\<open>myPressureHistoryIdx\<close>, \<^verbatim>\<open>myRawPressureHistoryIdx\<close>) are left out.  The function-local
  statics \<^verbatim>\<open>nextRead\<close>, \<^verbatim>\<open>lastTime\<close> and \<^verbatim>\<open>lastAltitude\<close> are fields of the state.
\<close>

datatype ms5611_osr_t =
    MS5611_ULTRA_HIGH_RES
  | MS5611_HIGH_RES
  | MS5611_STANDARD
  | MS5611_LOW_POWER
  | MS5611_ULTRA_LOW_POWER

fun osr_code :: "ms5611_osr_t \<Rightarrow> 8 word" where
  "osr_code MS5611_ULTRA_HIGH_RES = 0x08"
| "osr_code MS5611_HIGH_RES = 0x06"
| "osr_code MS5611_STANDARD = 0x04"
| "osr_code MS5611_LOW_POWER = 0x02"
| "osr_code MS5611_ULTRA_LOW_POWER = 0x00"

datatype vario_value_t = NONE | DIGITAL_PRESSURE_VALUE | DIGITAL_TEMPERATURE_VALUE | LAST

definition MS5611_CMD_ADC_READ :: "8 word" where "MS5611_CMD_ADC_READ = 0x00"
definition MS5611_CMD_RESET :: "8 word" where "MS5611_CMD_RESET = 0x1E"
definition MS5611_CMD_CONV_D1 :: "8 word" where "MS5611_CMD_CONV_D1 = 0x40"
definition MS5611_CMD_CONV_D2 :: "8 word" where "MS5611_CMD_CONV_D2 = 0x50"
definition MS5611_CMD_READ_PROM :: "8 word" where "MS5611_CMD_READ_PROM = 0xA2"
definition PRESSURE_SEALEVEL :: real where "PRESSURE_SEALEVEL = 101325"
definition INT32_MAX :: "32 word" where "INT32_MAX = 0x7FFFFFFF"

record 'u VarioMS5611 =
  myDoSecondOrderCompensation :: bool
  myWarmUpPhase :: bool
  myRunCnt :: 'u
  myPressureSmoothingFactor :: real
  myReferenceHeight :: real
  myPendingValueType :: vario_value_t
  myVerticalSpeed :: 'u
  myVerticalSpeedSmoothingFactor :: real
  myCompensationValues :: "nat \<Rightarrow> 16 word"
  myRawPressureVal_D1 :: "32 word"
  myRawTemperatureVal_D2 :: "32 word"
  myPressureVal :: "32 word"
  mySmoothedPressureVal :: real
  myTemperatureVal :: "32 word"
  myct :: "8 word"
  myuosr :: "8 word"
  myTEMP2 :: "32 word"
  myOFF2 :: "64 word"
  mySENS2 :: "64 word"
  nextRead :: "32 word"
  lastTime :: "32 word"
  lastAltitude :: real

section \<open>The compensation engine\<close>

text \<open>C++ integer division truncates towards zero; \<open>sdiv\<close> on \<open>int\<close> does so too.\<close>

definition c_sdiv :: "'a::len word \<Rightarrow> 'a word \<Rightarrow> 'a word" where
  "c_sdiv a b = word_of_int (sint a sdiv sint b)"

text \<open>
  \<^verbatim>\<open>int32_t calcTemperature(uint32_t aRawTemperature)\<close>.  The subtraction for \<open>dT\<close> is done in
  \<^verbatim>\<open>uint32_t\<close>; the product for \<open>TEMP\<close> in \<^verbatim>\<open>int64_t\<close>, converted to \<^verbatim>\<open>int32_t\<close> on
  assignment; the product \<^verbatim>\<open>dT * dT\<close> in \<^verbatim>\<open>int32_t\<close>.
\<close>

definition calcTemperature ::
  "'u VarioMS5611 \<Rightarrow> 32 word \<Rightarrow> 32 word \<times> 'u VarioMS5611" where
  "calcTemperature st aRawTemperature =
    (let D2 = aRawTemperature;
         dT = D2 - ucast (myCompensationValues st 4) * 256;
         TEMP = (ucast ((2000 :: 64 word)
                   + c_sdiv (scast dT * ucast (myCompensationValues st 5)) 8388608) :: 32 word);
         st1 = st\<lparr>myTEMP2 := 0\<rparr>;
         st2 = (if myDoSecondOrderCompensation st1
                then (if TEMP <s 2000
                      then st1\<lparr>myTEMP2 := c_sdiv (dT * dT) INT32_MAX\<rparr>
                      else st1)
                else st1);
         TEMP' = TEMP - myTEMP2 st2
     in (TEMP', st2))"

text \<open>
  \<^verbatim>\<open>int32_t calcTemperatureCompensatedPressure(uint32_t aRawPressure, uint32_t aRawTemperature)\<close>.
  \<open>OFF\<close> and \<open>SENS\<close> are \<^verbatim>\<open>int64_t\<close>; the second-order terms are computed in \<^verbatim>\<open>int32_t\<close>
  (the operands are \<^verbatim>\<open>int32_t TEMP\<close> and \<^verbatim>\<open>int\<close> literals) and sign-extended when they
  are stored in \<^verbatim>\<open>myOFF2\<close> and \<^verbatim>\<open>mySENS2\<close>.  The result is converted to \<^verbatim>\<open>uint32_t\<close> and
  returned as \<^verbatim>\<open>int32_t\<close>.
\<close>

definition calcTemperatureCompensatedPressure ::
  "'u VarioMS5611 \<Rightarrow> 32 word \<Rightarrow> 32 word \<Rightarrow> 32 word \<times> 'u VarioMS5611" where
  "calcTemperatureCompensatedPressure st aRawPressure aRawTemperature =
    (let dT = aRawTemperature - ucast (myCompensationValues st 4) * 256;
         OFF = (ucast (myCompensationValues st 1) * 65536
                  + c_sdiv (ucast (myCompensationValues st 3) * scast dT) 128 :: 64 word);
         SENS = (ucast (myCompensationValues st 0) * 32768
                  + c_sdiv (ucast (myCompensationValues st 2) * scast dT) 256 :: 64 word);
         (OFF', SENS', st') =
           (if myDoSecondOrderCompensation st
            then
              (let TEMP = (ucast ((2000 :: 64 word)
                             + c_sdiv (scast dT * ucast (myCompensationValues st 5)) 8388608)
                           :: 32 word);
                   st1 = st\<lparr>myOFF2 := 0, mySENS2 := 0\<rparr>;
                   st2 = (if TEMP <s 2000
                          then st1\<lparr>myOFF2 := scast (c_sdiv (5 * ((TEMP - 2000) * (TEMP - 2000))) 2),
                                   mySENS2 := scast (c_sdiv (5 * ((TEMP - 2000) * (TEMP - 2000))) 4)\<rparr>
                          else st1);
                   st3 = (if TEMP <s - 1500
                          then st2\<lparr>myOFF2 := myOFF2 st2 + scast (7 * ((TEMP + 1500) * (TEMP + 1500))),
                                   mySENS2 := mySENS2 st2
                                     + scast (c_sdiv (11 * ((TEMP + 1500) * (TEMP + 1500))) 2)\<rparr>
                          else st2)
               in (OFF - myOFF2 st3, SENS - mySENS2 st3, st3))
            else (OFF, SENS, st));
         result = (ucast (c_sdiv (c_sdiv (ucast aRawPressure * SENS') 2097152 - OFF') 32768)
                   :: 32 word)
     in (result, st'))"

section \<open>The outside world: clock and two-wire bus\<close>

text \<open>
  The Arduino core and the Wire library are not part of the repository.  The world holds
  the millisecond clock read by \<^verbatim>\<open>millis()\<close> (an \<^verbatim>\<open>unsigned long\<close>, wrapping), the bytes
  the device will deliver to successive \<^verbatim>\<open>Wire.read()\<close> calls, the bytes written so far with
  \<^verbatim>\<open>Wire.write\<close>, and the indeterminate content of an uninitialised \<^verbatim>\<open>uint8_t\<close> local.
  The clock advances only in \<^verbatim>\<open>delay\<close> and between calls of the driver; a call of the
  driver itself takes no time.  The framing of a bus transaction
  (\<^verbatim>\<open>beginTransmission\<close>, \<^verbatim>\<open>endTransmission\<close>, \<^verbatim>\<open>requestFrom\<close>) is not represented, only
  the bytes that travel.  The device always answers: the polling loop
  \<^verbatim>\<open>while(!Wire.available()) {}\<close> of the register reads is taken to fall through.
\<close>

record world =
  clock :: "32 word"
  wire_rx :: "nat \<Rightarrow> 8 word"
  wire_pos :: nat
  wire_tx :: "8 word list"
  stack_garbage :: "8 word"

definition millis :: "world \<Rightarrow> 32 word" where
  "millis w = clock w"

definition delay :: "32 word \<Rightarrow> world \<Rightarrow> world" where
  "delay ms w = w\<lparr>clock := clock w + ms\<rparr>"

definition Wire_write :: "8 word \<Rightarrow> world \<Rightarrow> world" where
  "Wire_write b w = w\<lparr>wire_tx := wire_tx w @ [b]\<rparr>"

definition Wire_read :: "world \<Rightarrow> 8 word \<times> world" where
  "Wire_read w = (wire_rx w (wire_pos w), w\<lparr>wire_pos := Suc (wire_pos w)\<rparr>)"

definition reset :: "world \<Rightarrow> world" where
  "reset w = Wire_write MS5611_CMD_RESET w"

definition readRegister16 :: "8 word \<Rightarrow> world \<Rightarrow> 16 word \<times> world" where
  "readRegister16 reg w =
    (let w1 = Wire_write reg w;
         (vha, w2) = Wire_read w1;
         (vla, w3) = Wire_read w2
     in (push_bit 8 (ucast vha) OR ucast vla, w3))"

definition readRegister24 :: "8 word \<Rightarrow> world \<Rightarrow> 32 word \<times> world" where
  "readRegister24 reg w =
    (let w1 = Wire_write reg w;
         (vxa, w2) = Wire_read w1;
         (vha, w3) = Wire_read w2;
         (vla, w4) = Wire_read w3
     in (push_bit 16 (ucast vxa) OR push_bit 8 (ucast vha) OR ucast vla, w4))"

section \<open>Configuration and calibration\<close>

definition setOversampling :: "ms5611_osr_t \<Rightarrow> 'u VarioMS5611 \<Rightarrow> 'u VarioMS5611" where
  "setOversampling osr st =
    (let st1 = (case osr of
                  MS5611_ULTRA_LOW_POWER \<Rightarrow> st\<lparr>myct := 1\<rparr>
                | MS5611_LOW_POWER \<Rightarrow> st\<lparr>myct := 2\<rparr>
                | MS5611_STANDARD \<Rightarrow> st\<lparr>myct := 3\<rparr>
                | MS5611_HIGH_RES \<Rightarrow> st\<lparr>myct := 5\<rparr>
                | MS5611_ULTRA_HIGH_RES \<Rightarrow> st\<lparr>myct := 10\<rparr>)
     in st1\<lparr>myuosr := osr_code osr\<rparr>)"

definition setSecondOrderCompenstation :: "bool \<Rightarrow> 'u VarioMS5611 \<Rightarrow> 'u VarioMS5611" where
  "setSecondOrderCompenstation aDoCompensate st = st\<lparr>myDoSecondOrderCompensation := aDoCompensate\<rparr>"

definition setPressureSmoothingFactor :: "real \<Rightarrow> 'u VarioMS5611 \<Rightarrow> 'u VarioMS5611" where
  "setPressureSmoothingFactor aFactor st = st\<lparr>myPressureSmoothingFactor := aFactor\<rparr>"

definition setVerticalSpeedSmoothingFactor :: "real \<Rightarrow> 'u VarioMS5611 \<Rightarrow> 'u VarioMS5611" where
  "setVerticalSpeedSmoothingFactor aFactor st = st\<lparr>myVerticalSpeedSmoothingFactor := aFactor\<rparr>"

text \<open>\<^verbatim>\<open>readPROM\<close>: the loop over \<open>offset = 0, \<dots>, 5\<close>, counted down by its remaining iterations.\<close>

fun readPROM_loop ::
  "nat \<Rightarrow> nat \<Rightarrow> 'u VarioMS5611 \<Rightarrow> world \<Rightarrow> 'u VarioMS5611 \<times> world" where
  "readPROM_loop 0 offset st w = (st, w)"
| "readPROM_loop (Suc n) offset st w =
    (let (v, w') = readRegister16 (MS5611_CMD_READ_PROM + of_nat offset * 2) w
     in readPROM_loop n (Suc offset)
          (st\<lparr>myCompensationValues := (myCompensationValues st)(offset := v)\<rparr>) w')"

definition readPROM :: "'u VarioMS5611 \<Rightarrow> world \<Rightarrow> 'u VarioMS5611 \<times> world" where
  "readPROM st w = readPROM_loop 6 0 st w"

section \<open>Altitude, filter and vertical speed\<close>

definition calcAltitude :: "real \<Rightarrow> real \<Rightarrow> real" where
  "calcAltitude aPressure aSeaLevelPressure =
     44330 * (1 - (aPressure / aSeaLevelPressure) powr 0.1902949)"

definition getSmoothedPressure :: "'u VarioMS5611 \<Rightarrow> real" where
  "getSmoothedPressure st = mySmoothedPressureVal st"

definition getReferenceHeight :: "'u VarioMS5611 \<Rightarrow> real" where
  "getReferenceHeight st = myReferenceHeight st"

text \<open>\<^verbatim>\<open>calcRelAltitude\<close> calls \<^verbatim>\<open>calcAltitude\<close> with its default second argument.\<close>

definition calcRelAltitude :: "'u VarioMS5611 \<Rightarrow> real \<Rightarrow> real" where
  "calcRelAltitude st aPressure =
     (let retVal = calcAltitude aPressure 101325 - myReferenceHeight st in retVal)"

text \<open>
  Conversions between \<^verbatim>\<open>double\<close> and the integer types: towards zero, then wrapped (the
  conversion of a value out of range is undefined in C++).  In \<^verbatim>\<open>calcVerticalSpeed\<close> the
  quotient \<^verbatim>\<open>1000.0 / dT\<close> with \<open>dT = 0\<close> is an infinity in the code and \<open>0\<close> here; no
  property below depends on the value of the vertical speed.
\<close>

definition double_to_int :: "real \<Rightarrow> 'a::len word" where
  "double_to_int x = word_of_int (if 0 \<le> x then \<lfloor>x\<rfloor> else \<lceil>x\<rceil>)"

definition int_to_double :: "'a::len word \<Rightarrow> real" where
  "int_to_double x = real_of_int (sint x)"

definition calcVerticalSpeed :: "'w::len word VarioMS5611 \<Rightarrow> world \<Rightarrow> 'w word VarioMS5611" where
  "calcVerticalSpeed st w =
    (let dT = millis w - lastTime st;
         altitude = calcAltitude (getSmoothedPressure st) PRESSURE_SEALEVEL * 100;
         st1 = (if myWarmUpPhase st then st\<lparr>lastAltitude := altitude\<rparr> else st);
         vspeed = (altitude - lastAltitude st1) * (1000 / real (unat dT));
         st2 = st1\<lparr>myVerticalSpeed :=
                 double_to_int (vspeed + myVerticalSpeedSmoothingFactor st1
                                  * (int_to_double (myVerticalSpeed st1) - vspeed))\<rparr>;
         st3 = st2\<lparr>lastAltitude := altitude\<rparr>
     in st3\<lparr>lastTime := millis w\<rparr>)"

definition calcFilter :: "'w::len word VarioMS5611 \<Rightarrow> world \<Rightarrow> 'w word VarioMS5611" where
  "calcFilter st w =
    (let st1 = st\<lparr>mySmoothedPressureVal :=
                 int_to_double (myPressureVal st)
                 + myPressureSmoothingFactor st
                   * (mySmoothedPressureVal st - int_to_double (myPressureVal st))\<rparr>
     in calcVerticalSpeed st1 w)"

section \<open>The acquisition step\<close>

text \<open>
  \<^verbatim>\<open>boolean triggerReadValues(vario_value_t aRequestType)\<close>.  For a request other than the
  three kinds its callers pass, the \<^verbatim>\<open>switch\<close> assigns nothing to \<^verbatim>\<open>valueAddr\<close>.
\<close>

definition triggerReadValues ::
  "vario_value_t \<Rightarrow> 'w::len word VarioMS5611 \<Rightarrow> world
     \<Rightarrow> bool \<times> 'w word VarioMS5611 \<times> world" where
  "triggerReadValues aRequestType st w =
    (if nextRead st < millis w then
       (let st1 = st\<lparr>myRunCnt := myRunCnt st + 1\<rparr>;
            st2 = (if myRunCnt st1 = 100
                   then st1\<lparr>myWarmUpPhase := False,
                            myReferenceHeight :=
                              calcAltitude (getSmoothedPressure st1) PRESSURE_SEALEVEL\<rparr>
                   else st1);
            (st3, w3) =
              (if myPendingValueType st2 = DIGITAL_PRESSURE_VALUE then
                 (let (v, w') = readRegister24 MS5611_CMD_ADC_READ w;
                      sa = st2\<lparr>myRawPressureVal_D1 := v\<rparr>;
                      (t, sb) = calcTemperature sa (myRawTemperatureVal_D2 sa);
                      sc = sb\<lparr>myTemperatureVal := t\<rparr>;
                      (p, sd) = calcTemperatureCompensatedPressure sc
                                  (myRawPressureVal_D1 sc) (myRawTemperatureVal_D2 sc);
                      se = sd\<lparr>myPressureVal := p\<rparr>
                  in (calcFilter se w', w'))
               else if myPendingValueType st2 = DIGITAL_TEMPERATURE_VALUE then
                 (let (v, w') = readRegister24 MS5611_CMD_ADC_READ w
                  in (st2\<lparr>myRawTemperatureVal_D2 := v\<rparr>, w'))
               else (st2, w));
            retVal = (aRequestType = myPendingValueType st3);
            (st4, valueAddr) =
              (if aRequestType \<noteq> NONE then
                 (st3\<lparr>myPendingValueType := aRequestType\<rparr>,
                  (case aRequestType of
                     DIGITAL_TEMPERATURE_VALUE \<Rightarrow> MS5611_CMD_CONV_D2 + myuosr st3
                   | DIGITAL_PRESSURE_VALUE \<Rightarrow> MS5611_CMD_CONV_D1 + myuosr st3
                   | _ \<Rightarrow> stack_garbage w3))
               else if myRunCnt st3 mod 2 = 0 then
                 (st3\<lparr>myPendingValueType := DIGITAL_TEMPERATURE_VALUE\<rparr>,
                  MS5611_CMD_CONV_D2 + myuosr st3)
               else
                 (st3\<lparr>myPendingValueType := DIGITAL_PRESSURE_VALUE\<rparr>,
                  MS5611_CMD_CONV_D1 + myuosr st3));
            w4 = Wire_write valueAddr w3;
            st5 = st4\<lparr>nextRead := millis w4 + ucast (myct st4)\<rparr>
        in (retVal, st5, w4))
     else (False, st, w))"

definition run :: "'w::len word VarioMS5611 \<Rightarrow> world \<Rightarrow> 'w word VarioMS5611 \<times> world" where
  "run st w = snd (triggerReadValues NONE st w)"

section \<open>Blocking reads and initialisation\<close>

text \<open>
  The blocking reads spin on the acquisition step with \<^verbatim>\<open>delay(1)\<close> between the calls.
  The loops have no bound, so they are partial functions: \<open>None\<close> is a read that never
  returns.
\<close>

partial_function (option) readRawTemperature ::
  "'w::len word VarioMS5611 \<Rightarrow> world \<Rightarrow> (32 word \<times> 'w word VarioMS5611 \<times> world) option" where
  "readRawTemperature st w =
    (case triggerReadValues DIGITAL_TEMPERATURE_VALUE st w of
       (r, st', w') \<Rightarrow>
         if r then Some (myRawTemperatureVal_D2 st', st', w')
         else readRawTemperature st' (delay 1 w'))"

partial_function (option) readRawPressure ::
  "'w::len word VarioMS5611 \<Rightarrow> world \<Rightarrow> (32 word \<times> 'w word VarioMS5611 \<times> world) option" where
  "readRawPressure st w =
    (case triggerReadValues DIGITAL_PRESSURE_VALUE st w of
       (r, st', w') \<Rightarrow>
         if r then Some (myRawPressureVal_D1 st', st', w')
         else readRawPressure st' (delay 1 w'))"

definition readPressure ::
  "bool \<Rightarrow> 'w::len word VarioMS5611 \<Rightarrow> world \<Rightarrow> (32 word \<times> 'w word VarioMS5611 \<times> world) option" where
  "readPressure aCompensation st w =
    (case readRawPressure st w of
       None \<Rightarrow> None
     | Some (D1, sa, wa) \<Rightarrow>
        (case readRawTemperature sa wa of
           None \<Rightarrow> None
         | Some (D2, sb, wb) \<Rightarrow>
            (let dT = D2 - ucast (myCompensationValues sb 4) * 256;
                 OFF = (ucast (myCompensationValues sb 1) * 65536
                          + c_sdiv (ucast (myCompensationValues sb 3) * scast dT) 128 :: 64 word);
                 SENS = (ucast (myCompensationValues sb 0) * 32768
                          + c_sdiv (ucast (myCompensationValues sb 2) * scast dT) 256 :: 64 word);
                 (OFF', SENS', sc) =
                   (if aCompensation
                    then
                      (let TEMP = (ucast ((2000 :: 64 word)
                                     + c_sdiv (scast dT * ucast (myCompensationValues sb 5)) 8388608)
                                   :: 32 word);
                           s1 = sb\<lparr>myOFF2 := 0, mySENS2 := 0\<rparr>;
                           s2 = (if TEMP <s 2000
                                 then s1\<lparr>myOFF2 := scast (c_sdiv (5 * ((TEMP - 2000) * (TEMP - 2000))) 2),
                                         mySENS2 := scast (c_sdiv (5 * ((TEMP - 2000) * (TEMP - 2000))) 4)\<rparr>
                                 else s1);
                           s3 = (if TEMP <s - 1500
                                 then s2\<lparr>myOFF2 := myOFF2 s2 + scast (7 * ((TEMP + 1500) * (TEMP + 1500))),
                                         mySENS2 := mySENS2 s2
                                           + scast (c_sdiv (11 * ((TEMP + 1500) * (TEMP + 1500))) 2)\<rparr>
                                 else s2)
                       in (OFF - myOFF2 s3, SENS - mySENS2 s3, s3))
                    else (OFF, SENS, sb));
                 P = (ucast (c_sdiv (c_sdiv (ucast D1 * SENS') 2097152 - OFF') 32768) :: 32 word)
             in Some (P, sc, wb))))"

definition readTemperature ::
  "bool \<Rightarrow> 'w::len word VarioMS5611 \<Rightarrow> world \<Rightarrow> (real \<times> 'w word VarioMS5611 \<times> world) option" where
  "readTemperature aCompensation st w =
    (case readRawTemperature st w of
       None \<Rightarrow> None
     | Some (D2, sa, wa) \<Rightarrow>
        (let dT = D2 - ucast (myCompensationValues sa 4) * 256;
             TEMP = (ucast ((2000 :: 64 word)
                       + c_sdiv (scast dT * ucast (myCompensationValues sa 5)) 8388608) :: 32 word);
             s1 = sa\<lparr>myTEMP2 := 0\<rparr>;
             s2 = (if aCompensation
                   then (if TEMP <s 2000
                         then s1\<lparr>myTEMP2 := c_sdiv (dT * dT) INT32_MAX\<rparr>
                         else s1)
                   else s1);
             TEMP' = TEMP - myTEMP2 s2
         in Some (int_to_double TEMP' / 100, s2, wa)))"

text \<open>The loop of \<^verbatim>\<open>begin\<close> that seeds the smoothed pressure, by its remaining iterations.\<close>

fun begin_loop ::
  "nat \<Rightarrow> 'w::len word VarioMS5611 \<Rightarrow> world \<Rightarrow> ('w word VarioMS5611 \<times> world) option" where
  "begin_loop 0 st w = Some (st, w)"
| "begin_loop (Suc n) st w =
    (case readPressure True st w of
       None \<Rightarrow> None
     | Some (p, st', w') \<Rightarrow> begin_loop n (st'\<lparr>mySmoothedPressureVal := int_to_double p\<rparr>) w')"

text \<open>
  \<^verbatim>\<open>bool begin(ms5611_osr_t aSamplingRate)\<close>, named \<open>vario_begin\<close> since \<open>begin\<close> is a
  keyword; \<^verbatim>\<open>Wire.begin()\<close> has no effect on the model.
\<close>

definition vario_begin ::
  "ms5611_osr_t \<Rightarrow> 'w::len word VarioMS5611 \<Rightarrow> world \<Rightarrow> (bool \<times> 'w word VarioMS5611 \<times> world) option" where
  "vario_begin aSamplingRate st w =
    (let w1 = reset w;
         st1 = setOversampling aSamplingRate st;
         w2 = delay 100 w1;
         (st2, w3) = readPROM st1 w2;
         st3 = st2\<lparr>myPendingValueType := NONE, myPressureSmoothingFactor := 0.9\<rparr>
     in case begin_loop 50 st3 w3 of
          None \<Rightarrow> None
        | Some (st4, w4) \<Rightarrow>
           (case readRawTemperature st4 w4 of
              None \<Rightarrow> None
            | Some (D2, st5, w5) \<Rightarrow>
               (let st6 = st5\<lparr>myRawTemperatureVal_D2 := D2, myVerticalSpeed := 0,
                               myVerticalSpeedSmoothingFactor := 0.9\<rparr>
                in case readTemperature True st6 w5 of
                     None \<Rightarrow> None
                   | Some (T, st7, w7) \<Rightarrow>
                      (let st8 = st7\<lparr>myTemperatureVal := double_to_int T\<rparr>;
                           st9 = st8\<lparr>myReferenceHeight :=
                                        calcAltitude (getSmoothedPressure st8) PRESSURE_SEALEVEL\<rparr>;
                           st10 = st9\<lparr>myDoSecondOrderCompensation := False, myRunCnt := 0,
                                        myWarmUpPhase := True\<rparr>
                       in Some (True, st10, w7)))))"

text \<open>
  The \<^verbatim>\<open>setup()\<close> of the example sketch retries \<^verbatim>\<open>begin\<close> while it returns false, with a
  message and \<^verbatim>\<open>delay(500)\<close> in the loop body; the result counts the executions of the body.
\<close>

partial_function (option) setup_retry ::
  "nat \<Rightarrow> 'w::len word VarioMS5611 \<Rightarrow> world \<Rightarrow> (nat \<times> 'w word VarioMS5611 \<times> world) option" where
  "setup_retry n st w =
    (case vario_begin MS5611_ULTRA_HIGH_RES st w of
       None \<Rightarrow> None
     | Some (ok, st', w') \<Rightarrow>
         if ok then Some (n, st', w') else setup_retry (Suc n) st' (delay 500 w'))"

section \<open>Executions of the cooperative loop\<close>

text \<open>
  The caller's loop calls \<^verbatim>\<open>run()\<close> again and again; between two calls the clock advances by
  some amount.  An execution is given by the list of these amounts.  \<open>ready_cycles\<close>
  collects, for every call that finds the deadline passed, the state before the call and
  the state and world after it.
\<close>

fun ready_cycles ::
  "32 word list \<Rightarrow> 'w::len word VarioMS5611 \<Rightarrow> world
     \<Rightarrow> ('w word VarioMS5611 \<times> 'w word VarioMS5611 \<times> world) list" where
  "ready_cycles [] st w = []"
| "ready_cycles (d # ds) st w =
    (let w1 = delay d w;
         (st', w') = run st w1
     in (if nextRead st < millis w1 then [(st, st', w')] else []) @ ready_cycles ds st' w')"

text \<open>The conversion kind recorded as pending by a cycle, and the command byte it sent last.\<close>

definition requested :: "('u VarioMS5611 \<times> 'u VarioMS5611 \<times> world) \<Rightarrow> vario_value_t \<times> 8 word" where
  "requested c = (case c of (pre, post, w') \<Rightarrow> (myPendingValueType post, last (wire_tx w')))"

section \<open>Reference formulas and example data\<close>

text \<open>
  The first-order formula of the data sheet as the specification words it, on unbounded
  integers, every division truncating:
  \<open>dT = rawTemperature - calib[4]*256\<close>, \<open>OFF = calib[1]*65536 + calib[3]*dT/128\<close>,
  \<open>SENS = calib[0]*32768 + calib[2]*dT/256\<close>,
  \<open>Pressure = (rawPressure*SENS/2097152 - OFF)/32768\<close>.
\<close>

definition datasheet_first_order_pressure :: "(nat \<Rightarrow> int) \<Rightarrow> int \<Rightarrow> int \<Rightarrow> int" where
  "datasheet_first_order_pressure calib rawPressure rawTemperature =
     (let dT = rawTemperature - calib 4 * 256;
          OFF = calib 1 * 65536 + (calib 3 * dT) sdiv 128;
          SENS = calib 0 * 32768 + (calib 2 * dT) sdiv 256
      in ((rawPressure * SENS) sdiv 2097152 - OFF) sdiv 32768)"

text \<open>
  The arithmetic of \<^verbatim>\<open>calcTemperature\<close> with the second-order flag set, on unbounded
  integers: what the function returns if, as the specification demands, no intermediate
  product wraps.
\<close>

definition second_order_temperature_exact :: "(nat \<Rightarrow> int) \<Rightarrow> int \<Rightarrow> int" where
  "second_order_temperature_exact calib rawTemperature =
     (let dT = rawTemperature - calib 4 * 256;
          TEMP = 2000 + (dT * calib 5) sdiv 8388608;
          TEMP2 = (if TEMP < 2000 then (dT * dT) sdiv 2147483647 else 0)
      in TEMP - TEMP2)"

text \<open>
  The calibration words and the raw readings of the worked example of the data sheet
  (\<open>D1 = 9085466\<close>, \<open>D2 = 8569150\<close>: 1000.09 mbar at 20.07 degrees), in a state as
  \<^verbatim>\<open>begin\<close> leaves it on a board with 16-bit \<^verbatim>\<open>int\<close>, and a world whose device answers every
  ADC read with \<open>D1\<close>.
\<close>

definition datasheet_calibration :: "nat \<Rightarrow> 16 word" where
  "datasheet_calibration =
     (\<lambda>i. if i = 0 then 40127 else if i = 1 then 36924 else if i = 2 then 23317
          else if i = 3 then 23282 else if i = 4 then 33464 else if i = 5 then 28312 else 0)"

definition example_vario :: "16 word VarioMS5611" where
  "example_vario =
     \<lparr> myDoSecondOrderCompensation = False, myWarmUpPhase = True, myRunCnt = 0,
       myPressureSmoothingFactor = 0.9, myReferenceHeight = 110,
       myPendingValueType = DIGITAL_TEMPERATURE_VALUE, myVerticalSpeed = 0,
       myVerticalSpeedSmoothingFactor = 0.9, myCompensationValues = datasheet_calibration,
       myRawPressureVal_D1 = 9085466, myRawTemperatureVal_D2 = 8569150,
       myPressureVal = 100009, mySmoothedPressureVal = 100009, myTemperatureVal = 20,
       myct = 10, myuosr = 8, myTEMP2 = 0, myOFF2 = 0, mySENS2 = 0,
       nextRead = 2300, lastTime = 2268, lastAltitude = 11000 \<rparr>"

definition example_world :: world where
  "example_world =
     \<lparr> clock = 2400,
       wire_rx = (\<lambda>n. if n mod 3 = 0 then 0x8A else if n mod 3 = 1 then 0xA2 else 0x1A),
       wire_pos = 0, wire_tx = [], stack_garbage = 0 \<rparr>"

text \<open>The same state with the second-order compensation switched on by its setter.\<close>

definition cold_vario :: "16 word VarioMS5611" where
  "cold_vario = setSecondOrderCompenstation True example_vario"

text \<open>
  The object before \<^verbatim>\<open>begin\<close> has been called: the sketch declares it at file scope, so all
  its members and the function-local statics are zero, and no conversion is pending.
\<close>

definition fresh_vario :: "16 word VarioMS5611" where
  "fresh_vario =
     \<lparr> myDoSecondOrderCompensation = False, myWarmUpPhase = False, myRunCnt = 0,
       myPressureSmoothingFactor = 0, myReferenceHeight = 0,
       myPendingValueType = NONE, myVerticalSpeed = 0,
       myVerticalSpeedSmoothingFactor = 0, myCompensationValues = (\<lambda>i. 0),
       myRawPressureVal_D1 = 0, myRawTemperatureVal_D2 = 0,
       myPressureVal = 0, mySmoothedPressureVal = 0, myTemperatureVal = 0,
       myct = 0, myuosr = 0, myTEMP2 = 0, myOFF2 = 0, mySENS2 = 0,
       nextRead = 0, lastTime = 0, lastAltitude = 0 \<rparr>"

text \<open>The difference \<open>dT\<close> of the compensation formulas, on unbounded integers.\<close>

definition dT_int :: "(nat \<Rightarrow> 16 word) \<Rightarrow> 32 word \<Rightarrow> int" where
  "dT_int C D2 = uint D2 - uint (C 4) * 256"

section \<open>Word arithmetic without wrap-around\<close>

lemma abs_sdiv_int: "\<bar>(a::int) sdiv b\<bar> = \<bar>a\<bar> div \<bar>b\<bar>"
  by (cases "a = 0"; cases "b = 0")
     (simp_all add: signed_divide_int_def abs_mult abs_sgn_eq pos_imp_zdiv_nonneg_iff)

lemma abs_sdiv_bound: "\<bar>a::int\<bar> \<le> M \<Longrightarrow> 0 < b \<Longrightarrow> \<bar>a sdiv b\<bar> \<le> M div b"
  by (simp add: abs_sdiv_int zdiv_mono1)

lemma abs_mult_bound: "\<bar>a::int\<bar> \<le> A \<Longrightarrow> \<bar>b\<bar> \<le> B \<Longrightarrow> \<bar>a * b\<bar> \<le> A * B"
  by (simp add: abs_mult mult_mono)

lemma sint_word_of_int_32: "\<bar>k\<bar> < 2 ^ 31 \<Longrightarrow> sint (word_of_int k :: 32 word) = k"
  by (simp add: sint_sbintrunc' signed_take_bit_int_eq_self)

lemma sint_word_of_int_64: "\<bar>k\<bar> < 2 ^ 63 \<Longrightarrow> sint (word_of_int k :: 64 word) = k"
  by (simp add: sint_sbintrunc' signed_take_bit_int_eq_self)

lemma c_sdiv_word_of_int_64:
  "\<bar>k\<bar> < 2 ^ 63 \<Longrightarrow> \<bar>n\<bar> < 2 ^ 63 \<Longrightarrow>
   c_sdiv (word_of_int k :: 64 word) (word_of_int n) = word_of_int (k sdiv n)"
  by (simp add: c_sdiv_def sint_word_of_int_64)

lemma uint16_bounds: "0 \<le> uint (x :: 16 word) \<and> uint x \<le> 65535"
  using uint_bounded [of x] by simp

lemma dT_word:
  "D2 - ucast (C (4::nat) :: 16 word) * 256 = (word_of_int (dT_int C D2) :: 32 word)"
  unfolding dT_int_def
  by (simp only: ucast_eq wi_hom_syms word_of_int_uint word_of_int_numeral)

lemma dT_int_bound:
  assumes "uint D2 < 2 ^ 24"
  shows "\<bar>dT_int C D2\<bar> \<le> 16777215"
proof -
  have "0 \<le> uint D2" "uint D2 \<le> 16777215" "0 \<le> uint (C 4)" "uint (C 4) \<le> 65535"
    using assms uint16_bounds [of "C 4"] by simp_all
  then show ?thesis unfolding dT_int_def by linarith
qed

lemma c_sdiv_numeral_64:
  assumes "\<bar>k\<bar> < 2 ^ 63" and "(numeral n :: int) < 2 ^ 63"
  shows "c_sdiv (word_of_int k :: 64 word) (numeral n) = word_of_int (k sdiv numeral n)"
proof -
  have "\<bar>numeral n :: int\<bar> < 2 ^ 63" using assms(2) by simp
  from c_sdiv_word_of_int_64 [OF assms(1) this] show ?thesis
    by (simp only: word_of_int_numeral)
qed

lemma coeff_dT_word:
  assumes "\<bar>d\<bar> \<le> 16777215"
  shows "(ucast (c :: 16 word) * scast (word_of_int d :: 32 word) :: 64 word) = word_of_int (uint c * d)"
    and "(scast (word_of_int d :: 32 word) * ucast c :: 64 word) = word_of_int (d * uint c)"
    and "\<bar>uint c * d\<bar> \<le> 1099494785025"
    and "\<bar>d * uint c\<bar> \<le> 1099494785025"
proof -
  have sd: "sint (word_of_int d :: 32 word) = d"
    using assms(1) by (simp add: sint_word_of_int_32)
  show "(ucast c * scast (word_of_int d :: 32 word) :: 64 word) = word_of_int (uint c * d)"
    by (simp only: ucast_eq scast_eq sd wi_hom_syms)
  show "(scast (word_of_int d :: 32 word) * ucast c :: 64 word) = word_of_int (d * uint c)"
    by (simp only: ucast_eq scast_eq sd wi_hom_syms)
  have "\<bar>uint c * d\<bar> \<le> 65535 * 16777215"
    using uint16_bounds [of c] assms(1) by (intro abs_mult_bound) simp_all
  then show "\<bar>uint c * d\<bar> \<le> 1099494785025" by simp
  then show "\<bar>d * uint c\<bar> \<le> 1099494785025" by (simp add: mult.commute)
qed

lemma first_order_words:
  fixes C :: "nat \<Rightarrow> 16 word" and D1 D2 :: "32 word"
  assumes D1: "uint D1 < 2 ^ 24" and D2: "uint D2 < 2 ^ 24"
  defines "dT \<equiv> D2 - ucast (C 4) * 256"
  defines "OFF \<equiv> (ucast (C 1) * 65536 + c_sdiv (ucast (C 3) * scast dT) 128 :: 64 word)"
  defines "SENS \<equiv> (ucast (C 0) * 32768 + c_sdiv (ucast (C 2) * scast dT) 256 :: 64 word)"
  shows "sint (ucast (c_sdiv (c_sdiv (ucast D1 * SENS) 2097152 - OFF) 32768) :: 32 word)
         = datasheet_first_order_pressure (\<lambda>i. uint (C i)) (uint D1) (uint D2)"
proof -
  define d where "d = dT_int C D2"
  define offt where "offt = (uint (C 3) * d) sdiv 128"
  define senst where "senst = (uint (C 2) * d) sdiv 256"
  define OFFi where "OFFi = uint (C 1) * 65536 + offt"
  define SENSi where "SENSi = uint (C 0) * 32768 + senst"
  define X where "X = (uint D1 * SENSi) sdiv 2097152"
  define P where "P = (X - OFFi) sdiv 32768"
  have db: "\<bar>d\<bar> \<le> 16777215" unfolding d_def by (rule dT_int_bound [OF D2])
  have dTw: "dT = word_of_int d" unfolding dT_def d_def by (rule dT_word)
  have offt_b: "\<bar>offt\<bar> \<le> 8589803008"
    unfolding offt_def using abs_sdiv_bound [OF coeff_dT_word(3) [OF db, of "C 3"], of 128] by simp
  have senst_b: "\<bar>senst\<bar> \<le> 4294901504"
    unfolding senst_def using abs_sdiv_bound [OF coeff_dT_word(3) [OF db, of "C 2"], of 256] by simp
  have offt_w: "c_sdiv (ucast (C 3) * scast dT) 128 = (word_of_int offt :: 64 word)"
    unfolding dTw coeff_dT_word(1) [OF db] offt_def
    using coeff_dT_word(3) [OF db, of "C 3"] by (intro c_sdiv_numeral_64) simp_all
  have senst_w: "c_sdiv (ucast (C 2) * scast dT) 256 = (word_of_int senst :: 64 word)"
    unfolding dTw coeff_dT_word(1) [OF db] senst_def
    using coeff_dT_word(3) [OF db, of "C 2"] by (intro c_sdiv_numeral_64) simp_all
  have OFFw: "OFF = word_of_int OFFi"
    unfolding OFF_def OFFi_def offt_w
    by (simp only: ucast_eq wi_hom_syms word_of_int_numeral)
  have SENSw: "SENS = word_of_int SENSi"
    unfolding SENS_def SENSi_def senst_w
    by (simp only: ucast_eq wi_hom_syms word_of_int_numeral)
  have OFFi_b: "\<bar>OFFi\<bar> \<le> 4294901760 + 8589803008"
    unfolding OFFi_def using offt_b uint16_bounds [of "C 1"] by linarith
  have SENSi_b: "\<bar>SENSi\<bar> \<le> 2147450880 + 4294901504"
    unfolding SENSi_def using senst_b uint16_bounds [of "C 0"] by linarith
  have D1b: "\<bar>uint D1\<bar> \<le> 16777215" using D1 by simp
  have prod_b: "\<bar>uint D1 * SENSi\<bar> \<le> 16777215 * (2147450880 + 4294901504)"
    by (rule abs_mult_bound [OF D1b SENSi_b])
  have prod_w: "ucast D1 * SENS = (word_of_int (uint D1 * SENSi) :: 64 word)"
    unfolding SENSw by (simp only: ucast_eq wi_hom_syms)
  have X_w: "c_sdiv (ucast D1 * SENS) 2097152 = (word_of_int X :: 64 word)"
    unfolding prod_w X_def using prod_b by (intro c_sdiv_numeral_64) simp_all
  have X_b: "\<bar>X\<bar> \<le> 51538816000"
    unfolding X_def using abs_sdiv_bound [OF prod_b, of 2097152] by simp
  have diff_w: "c_sdiv (ucast D1 * SENS) 2097152 - OFF = (word_of_int (X - OFFi) :: 64 word)"
    unfolding X_w OFFw by (simp only: wi_hom_syms)
  have diff_b: "\<bar>X - OFFi\<bar> \<le> 51538816000 + (4294901760 + 8589803008)"
    using X_b OFFi_b by linarith
  have P_w: "c_sdiv (c_sdiv (ucast D1 * SENS) 2097152 - OFF) 32768 = (word_of_int P :: 64 word)"
    unfolding diff_w P_def using diff_b by (intro c_sdiv_numeral_64) simp_all
  have P_b: "\<bar>P\<bar> \<le> 1966049"
    unfolding P_def using abs_sdiv_bound [OF diff_b, of 32768] by simp
  have "sint (ucast (word_of_int P :: 64 word) :: 32 word) = P"
    using P_b by (simp add: ucast_down_wi is_down sint_word_of_int_32)
  then show ?thesis
    unfolding P_w
    by (simp add: datasheet_first_order_pressure_def Let_def P_def X_def SENSi_def OFFi_def
        senst_def offt_def d_def dT_int_def)
qed


section \<open>Properties of the compensation engine\<close>

text \<open>
  C1.  With the second-order compensation disabled, for all calibration words and all raw
  readings in the 24-bit range of the converter, the value returned by
  \<^verbatim>\<open>calcTemperatureCompensatedPressure\<close>, read as the \<^verbatim>\<open>int32_t\<close> it is, equals the
  first-order formula of the data sheet computed on unbounded integers with truncating
  division: none of the 32- and 64-bit operations of the code wraps, and the conversions
  to \<^verbatim>\<open>uint32_t\<close> and \<^verbatim>\<open>int32_t\<close> lose nothing.
\<close>

theorem first_order_pressure_matches_datasheet:
  assumes "\<not> myDoSecondOrderCompensation st"
    and "uint aRawPressure < 2 ^ 24" and "uint aRawTemperature < 2 ^ 24"
  shows "sint (fst (calcTemperatureCompensatedPressure st aRawPressure aRawTemperature))
         = datasheet_first_order_pressure (\<lambda>i. uint (myCompensationValues st i))
             (uint aRawPressure) (uint aRawTemperature)"
  using first_order_words [OF assms(2,3), of "myCompensationValues st"] assms(1)
  by (simp add: calcTemperatureCompensatedPressure_def Let_def)

theorem first_order_pressure_matches_datasheet_witness:
  "\<not> myDoSecondOrderCompensation example_vario
   \<and> uint (9085466 :: 32 word) < 2 ^ 24 \<and> uint (8569150 :: 32 word) < 2 ^ 24
   \<and> sint (fst (calcTemperatureCompensatedPressure example_vario 9085466 8569150)) = 100009"
proof -
  have flag: "\<not> myDoSecondOrderCompensation example_vario"
    by (simp add: example_vario_def)
  have d1: "uint (9085466 :: 32 word) < 2 ^ 24" and d2: "uint (8569150 :: 32 word) < 2 ^ 24"
    by simp_all
  have "datasheet_first_order_pressure (\<lambda>i. uint (myCompensationValues example_vario i))
          (uint (9085466 :: 32 word)) (uint (8569150 :: 32 word)) = 100009"
    by (simp add: datasheet_first_order_pressure_def example_vario_def datasheet_calibration_def
        Let_def signed_divide_int_def)
  with first_order_pressure_matches_datasheet [OF flag d1 d2] flag d1 d2 show ?thesis
    by simp
qed

text \<open>
  C2.  The claim is that every intermediate product of the compensation is taken in 64
  bits.  The code takes \<^verbatim>\<open>dT * dT\<close> of \<^verbatim>\<open>calcTemperature\<close> in \<^verbatim>\<open>int32_t\<close>.  With the
  calibration of the data sheet and the raw temperature 7974184 (0 degrees), \<open>dT\<close> is
  \<open>-592600\<close>, whose square 351174760000 does not fit 32 bits: the product wraps to
  \<open>-1012558272\<close>, the correction \<^verbatim>\<open>myTEMP2\<close> becomes 0 and the code returns 0, where the
  exact arithmetic gives the correction 163 and the temperature \<open>-163\<close>.
\<close>

theorem calcTemperature_square_wraps:
  "sint (fst (calcTemperature cold_vario 7974184)) = 0
   \<and> myTEMP2 (snd (calcTemperature cold_vario 7974184)) = 0
   \<and> second_order_temperature_exact (\<lambda>i. uint (myCompensationValues cold_vario i)) 7974184 = - 163
   \<and> dT_int (myCompensationValues cold_vario) 7974184 = - 592600
   \<and> sint ((7974184 - ucast (myCompensationValues cold_vario 4) * 256)
             * (7974184 - ucast (myCompensationValues cold_vario 4) * 256) :: 32 word)
       = - 1012558272"
  by (simp add: calcTemperature_def second_order_temperature_exact_def cold_vario_def
      example_vario_def setSecondOrderCompenstation_def datasheet_calibration_def c_sdiv_def
      INT32_MAX_def Let_def word_sless_alt signed_divide_int_def dT_int_def)

text \<open>
  C3.  Whenever the first-order temperature (the result of \<^verbatim>\<open>calcTemperature\<close> with the flag
  clear) is at least 2000, the temperature and the pressure computed with the flag set
  equal those computed with the flag clear.
\<close>

theorem second_order_is_noop_from_20_degrees:
  assumes "2000 \<le>s fst (calcTemperature (setSecondOrderCompenstation False st) aRawTemperature)"
  shows "fst (calcTemperature (setSecondOrderCompenstation True st) aRawTemperature)
           = fst (calcTemperature (setSecondOrderCompenstation False st) aRawTemperature)
       \<and> fst (calcTemperatureCompensatedPressure (setSecondOrderCompenstation True st)
                aRawPressure aRawTemperature)
           = fst (calcTemperatureCompensatedPressure (setSecondOrderCompenstation False st)
                aRawPressure aRawTemperature)"
proof -
  define TEMP where "TEMP = (ucast ((2000 :: 64 word)
      + c_sdiv (scast (aRawTemperature - ucast (myCompensationValues st 4) * 256)
                * ucast (myCompensationValues st 5)) 8388608) :: 32 word)"
  from assms have warm: "2000 \<le>s TEMP"
    by (simp add: calcTemperature_def setSecondOrderCompenstation_def Let_def TEMP_def)
  then have a: "\<not> TEMP <s 2000"
    by (simp add: word_sless_alt word_sle_eq)
  from warm have b: "\<not> TEMP <s - 1500"
    by (simp add: word_sless_alt word_sle_eq)
  from a have "fst (calcTemperature (setSecondOrderCompenstation True st) aRawTemperature)
           = fst (calcTemperature (setSecondOrderCompenstation False st) aRawTemperature)"
    by (simp add: calcTemperature_def setSecondOrderCompenstation_def Let_def TEMP_def)
  moreover from a b have "fst (calcTemperatureCompensatedPressure
                (setSecondOrderCompenstation True st) aRawPressure aRawTemperature)
           = fst (calcTemperatureCompensatedPressure (setSecondOrderCompenstation False st)
                aRawPressure aRawTemperature)"
    by (simp add: calcTemperatureCompensatedPressure_def setSecondOrderCompenstation_def
        Let_def TEMP_def)
  ultimately show ?thesis by simp
qed

theorem second_order_is_noop_from_20_degrees_witness:
  "2000 \<le>s fst (calcTemperature (setSecondOrderCompenstation False example_vario) 8569150)
   \<and> sint (fst (calcTemperature (setSecondOrderCompenstation True example_vario) 8569150)) = 2007
   \<and> sint (fst (calcTemperatureCompensatedPressure (setSecondOrderCompenstation True example_vario)
                9085466 8569150)) = 100009"
proof -
  have h: "2000 \<le>s fst (calcTemperature (setSecondOrderCompenstation False example_vario) 8569150)"
    by (simp add: calcTemperature_def setSecondOrderCompenstation_def example_vario_def
        datasheet_calibration_def c_sdiv_def Let_def word_sle_eq)
  have t: "sint (fst (calcTemperature (setSecondOrderCompenstation False example_vario) 8569150))
             = 2007"
    by (simp add: calcTemperature_def setSecondOrderCompenstation_def example_vario_def
        datasheet_calibration_def c_sdiv_def Let_def)
  have p: "sint (fst (calcTemperatureCompensatedPressure
             (setSecondOrderCompenstation False example_vario) 9085466 8569150)) = 100009"
    by (simp add: calcTemperatureCompensatedPressure_def setSecondOrderCompenstation_def
        example_vario_def datasheet_calibration_def c_sdiv_def Let_def)
  from second_order_is_noop_from_20_degrees [OF h, of 9085466] h t p show ?thesis
    by simp
qed

text \<open>
  C8.  The claim that the two operations modify no component of the state fails: they use
  the members \<^verbatim>\<open>myTEMP2\<close>, \<^verbatim>\<open>myOFF2\<close> and \<^verbatim>\<open>mySENS2\<close> as scratch variables.  At 0 degrees
  with the flag set, \<^verbatim>\<open>calcTemperatureCompensatedPressure\<close> leaves \<open>10000000\<close> in \<^verbatim>\<open>myOFF2\<close>,
  which was 0 before the call.
\<close>

theorem compensation_writes_scratch_members:
  "snd (calcTemperatureCompensatedPressure cold_vario 9085466 7974184) \<noteq> cold_vario"
proof -
  have "myOFF2 (snd (calcTemperatureCompensatedPressure cold_vario 9085466 7974184)) = 10000000"
    by (simp add: calcTemperatureCompensatedPressure_def cold_vario_def example_vario_def
        setSecondOrderCompenstation_def datasheet_calibration_def c_sdiv_def Let_def
        word_sless_alt)
  moreover have "myOFF2 cold_vario = 0"
    by (simp add: cold_vario_def example_vario_def setSecondOrderCompenstation_def)
  ultimately show ?thesis by auto
qed

text \<open>
  C8, as amended.  The results of the two operations are determined by the raw readings,
  the calibration words and the second-order flag: two states that agree on calibration
  and flag give equal results.  The state after \<^verbatim>\<open>calcTemperature\<close> differs from the state
  before at most in \<^verbatim>\<open>myTEMP2\<close>, the state after \<^verbatim>\<open>calcTemperatureCompensatedPressure\<close> at most
  in \<^verbatim>\<open>myOFF2\<close> and \<^verbatim>\<open>mySENS2\<close>, and not at all when the flag is clear.
\<close>

theorem compensation_deterministic_up_to_scratch:
  assumes "myCompensationValues st = myCompensationValues st'"
    and "myDoSecondOrderCompensation st = myDoSecondOrderCompensation st'"
  shows "fst (calcTemperature st aRawTemperature) = fst (calcTemperature st' aRawTemperature)
       \<and> fst (calcTemperatureCompensatedPressure st aRawPressure aRawTemperature)
           = fst (calcTemperatureCompensatedPressure st' aRawPressure aRawTemperature)
       \<and> snd (calcTemperature st aRawTemperature)
           = st\<lparr>myTEMP2 := myTEMP2 (snd (calcTemperature st aRawTemperature))\<rparr>
       \<and> snd (calcTemperatureCompensatedPressure st aRawPressure aRawTemperature)
           = st\<lparr>myOFF2 := myOFF2 (snd (calcTemperatureCompensatedPressure st aRawPressure
                                          aRawTemperature)),
                 mySENS2 := mySENS2 (snd (calcTemperatureCompensatedPressure st aRawPressure
                                            aRawTemperature))\<rparr>
       \<and> (\<not> myDoSecondOrderCompensation st \<longrightarrow>
            snd (calcTemperatureCompensatedPressure st aRawPressure aRawTemperature) = st)"
proof -
  have "fst (calcTemperature st aRawTemperature) = fst (calcTemperature st' aRawTemperature)"
    using assms by (simp add: calcTemperature_def Let_def)
  moreover have "fst (calcTemperatureCompensatedPressure st aRawPressure aRawTemperature)
           = fst (calcTemperatureCompensatedPressure st' aRawPressure aRawTemperature)"
    using assms by (simp add: calcTemperatureCompensatedPressure_def Let_def)
  moreover have "snd (calcTemperature st aRawTemperature)
           = st\<lparr>myTEMP2 := myTEMP2 (snd (calcTemperature st aRawTemperature))\<rparr>"
    by (simp add: calcTemperature_def Let_def)
  moreover have "snd (calcTemperatureCompensatedPressure st aRawPressure aRawTemperature)
           = st\<lparr>myOFF2 := myOFF2 (snd (calcTemperatureCompensatedPressure st aRawPressure
                                          aRawTemperature)),
                 mySENS2 := mySENS2 (snd (calcTemperatureCompensatedPressure st aRawPressure
                                            aRawTemperature))\<rparr>"
    by (simp add: calcTemperatureCompensatedPressure_def Let_def)
  moreover have "\<not> myDoSecondOrderCompensation st \<longrightarrow>
            snd (calcTemperatureCompensatedPressure st aRawPressure aRawTemperature) = st"
    by (simp add: calcTemperatureCompensatedPressure_def Let_def)
  ultimately show ?thesis by blast
qed

theorem compensation_deterministic_up_to_scratch_witness:
  "myCompensationValues cold_vario = myCompensationValues (cold_vario\<lparr>myRunCnt := 7, myOFF2 := 5\<rparr>)
   \<and> myDoSecondOrderCompensation cold_vario
       = myDoSecondOrderCompensation (cold_vario\<lparr>myRunCnt := 7, myOFF2 := 5\<rparr>)
   \<and> fst (calcTemperatureCompensatedPressure cold_vario 9085466 7974184)
       = fst (calcTemperatureCompensatedPressure (cold_vario\<lparr>myRunCnt := 7, myOFF2 := 5\<rparr>)
                9085466 7974184)"
  using compensation_deterministic_up_to_scratch
          [of cold_vario "cold_vario\<lparr>myRunCnt := 7, myOFF2 := 5\<rparr>" 7974184 9085466]
  by simp

section \<open>Properties of the altitude calculator\<close>

text \<open>
  C9.  For every pressure and every stored reference height, \<^verbatim>\<open>calcRelAltitude\<close> of the
  pressure is \<^verbatim>\<open>calcAltitude\<close> of the pressure at the default sea-level pressure 101325,
  minus the stored reference height.
\<close>

theorem calcRelAltitude_is_calcAltitude_minus_reference:
  "calcRelAltitude st aPressure = calcAltitude aPressure 101325 - getReferenceHeight st"
  by (simp add: calcRelAltitude_def getReferenceHeight_def)

section \<open>Facts about one acquisition step\<close>

lemma calcTemperature_fields:
  "myRunCnt (snd (calcTemperature st x)) = myRunCnt st"
  "nextRead (snd (calcTemperature st x)) = nextRead st"
  "myct (snd (calcTemperature st x)) = myct st"
  "myuosr (snd (calcTemperature st x)) = myuosr st"
  "myPendingValueType (snd (calcTemperature st x)) = myPendingValueType st"
  "myCompensationValues (snd (calcTemperature st x)) = myCompensationValues st"
  "myReferenceHeight (snd (calcTemperature st x)) = myReferenceHeight st"
  "myWarmUpPhase (snd (calcTemperature st x)) = myWarmUpPhase st"
  "myDoSecondOrderCompensation (snd (calcTemperature st x)) = myDoSecondOrderCompensation st"
  "myRawTemperatureVal_D2 (snd (calcTemperature st x)) = myRawTemperatureVal_D2 st"
  "myRawPressureVal_D1 (snd (calcTemperature st x)) = myRawPressureVal_D1 st"
  "mySmoothedPressureVal (snd (calcTemperature st x)) = mySmoothedPressureVal st"
  by (simp_all add: calcTemperature_def Let_def)

lemma calcPressure_fields:
  "myRunCnt (snd (calcTemperatureCompensatedPressure st a b)) = myRunCnt st"
  "nextRead (snd (calcTemperatureCompensatedPressure st a b)) = nextRead st"
  "myct (snd (calcTemperatureCompensatedPressure st a b)) = myct st"
  "myuosr (snd (calcTemperatureCompensatedPressure st a b)) = myuosr st"
  "myPendingValueType (snd (calcTemperatureCompensatedPressure st a b)) = myPendingValueType st"
  "myCompensationValues (snd (calcTemperatureCompensatedPressure st a b)) = myCompensationValues st"
  "myReferenceHeight (snd (calcTemperatureCompensatedPressure st a b)) = myReferenceHeight st"
  "myWarmUpPhase (snd (calcTemperatureCompensatedPressure st a b)) = myWarmUpPhase st"
  "myDoSecondOrderCompensation (snd (calcTemperatureCompensatedPressure st a b))
     = myDoSecondOrderCompensation st"
  "myRawTemperatureVal_D2 (snd (calcTemperatureCompensatedPressure st a b)) = myRawTemperatureVal_D2 st"
  "myRawPressureVal_D1 (snd (calcTemperatureCompensatedPressure st a b)) = myRawPressureVal_D1 st"
  "mySmoothedPressureVal (snd (calcTemperatureCompensatedPressure st a b)) = mySmoothedPressureVal st"
  by (simp_all add: calcTemperatureCompensatedPressure_def Let_def)

lemma calcFilter_fields:
  "myRunCnt (calcFilter st w) = myRunCnt st"
  "nextRead (calcFilter st w) = nextRead st"
  "myct (calcFilter st w) = myct st"
  "myuosr (calcFilter st w) = myuosr st"
  "myPendingValueType (calcFilter st w) = myPendingValueType st"
  "myCompensationValues (calcFilter st w) = myCompensationValues st"
  "myReferenceHeight (calcFilter st w) = myReferenceHeight st"
  "myWarmUpPhase (calcFilter st w) = myWarmUpPhase st"
  "myDoSecondOrderCompensation (calcFilter st w) = myDoSecondOrderCompensation st"
  "myRawTemperatureVal_D2 (calcFilter st w) = myRawTemperatureVal_D2 st"
  "myRawPressureVal_D1 (calcFilter st w) = myRawPressureVal_D1 st"
  by (simp_all add: calcFilter_def calcVerticalSpeed_def Let_def)

lemma readRegister24_world:
  "clock (snd (readRegister24 reg w)) = clock w"
  "wire_tx (snd (readRegister24 reg w)) = wire_tx w @ [reg]"
  "stack_garbage (snd (readRegister24 reg w)) = stack_garbage w"
  by (simp_all add: readRegister24_def Wire_write_def Wire_read_def Let_def)

lemmas step_fields = calcTemperature_fields calcPressure_fields calcFilter_fields readRegister24_world

lemma trigger_not_ready:
  "\<not> nextRead st < millis w \<Longrightarrow> triggerReadValues req st w = (False, st, w)"
  by (simp add: triggerReadValues_def)

lemma trigger_ready_ct:
  "nextRead st < millis w \<Longrightarrow> myct (fst (snd (triggerReadValues req st w))) = myct st"
  by (simp add: triggerReadValues_def Let_def case_prod_beta step_fields)

lemma trigger_ready_clock:
  "nextRead st < millis w \<Longrightarrow> clock (snd (snd (triggerReadValues req st w))) = clock w"
  by (simp add: triggerReadValues_def Let_def case_prod_beta step_fields Wire_write_def)

lemma trigger_ready_counter:
  "nextRead st < millis w \<Longrightarrow> myRunCnt (fst (snd (triggerReadValues req st w))) = myRunCnt st + 1"
  by (simp add: triggerReadValues_def Let_def case_prod_beta step_fields)

lemma trigger_ready_ret:
  "nextRead st < millis w \<Longrightarrow> fst (triggerReadValues req st w) = (req = myPendingValueType st)"
  by (simp add: triggerReadValues_def Let_def case_prod_beta step_fields)

lemma trigger_ready_nextRead:
  "nextRead st < millis w \<Longrightarrow>
   nextRead (fst (snd (triggerReadValues req st w))) = millis w + ucast (myct st)"
  by (simp add: triggerReadValues_def Let_def case_prod_beta step_fields millis_def Wire_write_def)

lemma trigger_ready_pending:
  "nextRead st < millis w \<Longrightarrow>
   myPendingValueType (fst (snd (triggerReadValues req st w)))
     = (if req \<noteq> NONE then req
        else if (myRunCnt st + 1) mod 2 = 0 then DIGITAL_TEMPERATURE_VALUE
        else DIGITAL_PRESSURE_VALUE)"
  by (simp add: triggerReadValues_def Let_def case_prod_beta step_fields)

lemma trigger_ready_refheight:
  "nextRead st < millis w \<Longrightarrow>
   myReferenceHeight (fst (snd (triggerReadValues req st w)))
     = (if myRunCnt st + 1 = 100 then calcAltitude (getSmoothedPressure st) PRESSURE_SEALEVEL
        else myReferenceHeight st)"
  by (simp add: triggerReadValues_def Let_def case_prod_beta step_fields getSmoothedPressure_def)

lemma trigger_ready_tx:
  "nextRead st < millis w \<Longrightarrow>
   last (wire_tx (snd (snd (triggerReadValues req st w))))
     = (case req of
          NONE \<Rightarrow> (if (myRunCnt st + 1) mod 2 = 0 then MS5611_CMD_CONV_D2 + myuosr st
                    else MS5611_CMD_CONV_D1 + myuosr st)
        | DIGITAL_TEMPERATURE_VALUE \<Rightarrow> MS5611_CMD_CONV_D2 + myuosr st
        | DIGITAL_PRESSURE_VALUE \<Rightarrow> MS5611_CMD_CONV_D1 + myuosr st
        | LAST \<Rightarrow> stack_garbage w)"
  by (simp add: triggerReadValues_def Let_def case_prod_beta step_fields Wire_write_def
      split: vario_value_t.splits)

lemma trigger_ready_uosr:
  "nextRead st < millis w \<Longrightarrow> myuosr (fst (snd (triggerReadValues req st w))) = myuosr st"
  by (simp add: triggerReadValues_def Let_def case_prod_beta step_fields)

lemma run_not_ready: "\<not> nextRead st < millis w \<Longrightarrow> run st w = (st, w)"
  by (simp add: run_def triggerReadValues_def)

lemma run_ready_requested:
  assumes "nextRead st < millis w" and "run st w = (st', w')"
  shows "myRunCnt st' = myRunCnt st + 1"
    and "myuosr st' = myuosr st"
    and "requested (st, st', w') =
           (if even (myRunCnt st') then (DIGITAL_TEMPERATURE_VALUE, MS5611_CMD_CONV_D2 + myuosr st)
            else (DIGITAL_PRESSURE_VALUE, MS5611_CMD_CONV_D1 + myuosr st))"
proof -
  from assms(2) have st': "st' = fst (snd (triggerReadValues NONE st w))"
    and w': "w' = snd (snd (triggerReadValues NONE st w))"
    by (simp_all add: run_def)
  show c: "myRunCnt st' = myRunCnt st + 1"
    unfolding st' by (rule trigger_ready_counter [OF assms(1)])
  show "myuosr st' = myuosr st"
    unfolding st' by (rule trigger_ready_uosr [OF assms(1)])
  have "requested (st, st', w') = (myPendingValueType st', last (wire_tx w'))"
    by (simp add: requested_def)
  also have "\<dots> = (if (myRunCnt st + 1) mod 2 = 0
                   then (DIGITAL_TEMPERATURE_VALUE, MS5611_CMD_CONV_D2 + myuosr st)
                   else (DIGITAL_PRESSURE_VALUE, MS5611_CMD_CONV_D1 + myuosr st))"
    unfolding st' w'
    by (simp add: trigger_ready_pending [OF assms(1)] trigger_ready_tx [OF assms(1)])
  finally show "requested (st, st', w') =
           (if even (myRunCnt st') then (DIGITAL_TEMPERATURE_VALUE, MS5611_CMD_CONV_D2 + myuosr st)
            else (DIGITAL_PRESSURE_VALUE, MS5611_CMD_CONV_D1 + myuosr st))"
    by (simp add: c even_iff_mod_2_eq_zero)
qed

text \<open>Every collected cycle is a ready call of run; the counter advances by one per cycle.\<close>

lemma ready_cycles_nth:
  "i < length (ready_cycles ds st w) \<Longrightarrow>
   (case ready_cycles ds st w ! i of (pre, post, w') \<Rightarrow>
      myRunCnt pre = myRunCnt st + of_nat i \<and> myuosr pre = myuosr st
      \<and> (\<exists>w1. nextRead pre < millis w1 \<and> run pre w1 = (post, w')))"
proof (induction ds arbitrary: st w i)
  case Nil
  then show ?case by simp
next
  case (Cons d ds)
  obtain st' w' where r: "run st (delay d w) = (st', w')" by (cases "run st (delay d w)")
  show ?case
  proof (cases "nextRead st < millis (delay d w)")
    case False
    with r have "st' = st" "w' = delay d w" by (simp_all add: run_not_ready)
    with False r Cons.prems Cons.IH [of i st "delay d w"] show ?thesis
      by simp
  next
    case True
    note facts = run_ready_requested(1,2) [OF True r]
    show ?thesis
    proof (cases i)
      case 0
      with True r show ?thesis by auto
    next
      case (Suc k)
      with True r Cons.prems have "k < length (ready_cycles ds st' w')" by simp
      from Cons.IH [OF this] Suc True r facts show ?thesis
        by (simp add: case_prod_beta algebra_simps)
    qed
  qed
qed


lemma requested_nth:
  assumes "i < length (ready_cycles ds st w)"
  shows "requested (ready_cycles ds st w ! i) =
           (if even (myRunCnt (fst (snd (ready_cycles ds st w ! i))))
            then (DIGITAL_TEMPERATURE_VALUE, MS5611_CMD_CONV_D2 + myuosr st)
            else (DIGITAL_PRESSURE_VALUE, MS5611_CMD_CONV_D1 + myuosr st))"
    and "myRunCnt (fst (snd (ready_cycles ds st w ! i))) = myRunCnt st + of_nat (Suc i)"
proof -
  obtain pre post w' where c: "ready_cycles ds st w ! i = (pre, post, w')"
    by (cases "ready_cycles ds st w ! i")
  with ready_cycles_nth [OF assms] obtain w1 where
    pre: "myRunCnt pre = myRunCnt st + of_nat i" "myuosr pre = myuosr st"
    and rdy: "nextRead pre < millis w1" and r: "run pre w1 = (post, w')"
    by auto
  from run_ready_requested(3) [OF rdy r] c pre(2)
  show "requested (ready_cycles ds st w ! i) =
           (if even (myRunCnt (fst (snd (ready_cycles ds st w ! i))))
            then (DIGITAL_TEMPERATURE_VALUE, MS5611_CMD_CONV_D2 + myuosr st)
            else (DIGITAL_PRESSURE_VALUE, MS5611_CMD_CONV_D1 + myuosr st))"
    by simp
  from run_ready_requested(1) [OF rdy r] c pre(1)
  show "myRunCnt (fst (snd (ready_cycles ds st w ! i))) = myRunCnt st + of_nat (Suc i)"
    by (simp add: algebra_simps)
qed

lemma unat_ucast_8_32: "unat (ucast (x :: 8 word) :: 32 word) = unat x"
proof -
  have "unat x < 2 ^ 8" using unsigned_less [of x, where ?'a = nat] by simp
  then have "unat x < 2 ^ 32" by simp
  then show ?thesis by (simp add: unsigned_ucast_eq take_bit_nat_eq_self)
qed

lemma run_ready_time:
  assumes "nextRead st < millis w"
  shows "nextRead (fst (run st w)) = millis w + ucast (myct st)"
    and "myct (fst (run st w)) = myct st"
    and "clock (snd (run st w)) = clock w"
  using assms
  by (simp_all add: run_def triggerReadValues_def Let_def case_prod_beta step_fields millis_def
      Wire_write_def)

lemma ready_cycles_all_ready:
  assumes "unat (clock w) + sum_list (map unat ds) < 2 ^ 32"
    and "\<forall>d\<in>set ds. unat (myct st) < unat d"
    and "unat (nextRead st) \<le> unat (clock w) + unat (myct st)"
  shows "length (ready_cycles ds st w) = length ds"
  using assms
proof (induction ds arbitrary: st w)
  case Nil
  then show ?case by simp
next
  case (Cons d ds)
  let ?w1 = "delay d w"
  have c1: "unat (clock ?w1) = unat (clock w) + unat d"
    using Cons.prems(1) by (simp add: delay_def unat_word_ariths)
  have rdy: "nextRead st < millis ?w1"
    using Cons.prems(2,3) c1 by (simp add: word_less_nat_alt millis_def)
  note t = run_ready_time [OF rdy]
  have u: "unat (ucast (myct st) :: 32 word) = unat (myct st)"
    by (rule unat_ucast_8_32)
  have m: "myct (fst (run st ?w1)) = myct st" by (rule t(2))
  have n: "unat (nextRead (fst (run st ?w1)))
             \<le> unat (clock (snd (run st ?w1))) + unat (myct (fst (run st ?w1)))"
    unfolding m unfolding t millis_def using u by (simp add: unat_word_ariths)
  have s: "unat (clock (snd (run st ?w1))) + sum_list (map unat ds) < 2 ^ 32"
    unfolding t using Cons.prems(1) c1 by simp
  have a: "\<forall>d\<in>set ds. unat (myct (fst (run st ?w1))) < unat d"
    unfolding m using Cons.prems(2) by simp
  have "length (ready_cycles ds (fst (run st ?w1)) (snd (run st ?w1))) = length ds"
    by (rule Cons.IH [OF s a n])
  with rdy show ?case
    by (simp add: case_prod_beta Let_def)
qed

lemma example_all_ready:
  "length (ready_cycles (replicate n 20) example_vario example_world) = n" if "n \<le> 100000"
proof -
  have "unat (clock example_world) + sum_list (map unat (replicate n (20 :: 32 word))) < 2 ^ 32"
    using that by (simp add: example_world_def sum_list_replicate)
  moreover have "\<forall>d\<in>set (replicate n (20 :: 32 word)). unat (myct example_vario) < unat d"
    by (simp add: example_vario_def)
  moreover have "unat (nextRead example_vario)
                   \<le> unat (clock example_world) + unat (myct example_vario)"
    by (simp add: example_vario_def example_world_def)
  ultimately show ?thesis
    using ready_cycles_all_ready [of example_world "replicate n 20" example_vario] by simp
qed

lemma ready_cycle_reference_height:
  assumes "i < length (ready_cycles ds st w)"
  shows "myReferenceHeight (fst (snd (ready_cycles ds st w ! i)))
           = (if myRunCnt (fst (snd (ready_cycles ds st w ! i))) = 100
              then calcAltitude (getSmoothedPressure (fst (ready_cycles ds st w ! i))) PRESSURE_SEALEVEL
              else myReferenceHeight (fst (ready_cycles ds st w ! i)))"
proof -
  obtain pre post w' where c: "ready_cycles ds st w ! i = (pre, post, w')"
    by (cases "ready_cycles ds st w ! i")
  with ready_cycles_nth [OF assms] obtain w1 where
    rdy: "nextRead pre < millis w1" and r: "run pre w1 = (post, w')"
    by auto
  from r have post: "post = fst (snd (triggerReadValues NONE pre w1))"
    by (simp add: run_def)
  show ?thesis
    unfolding c using trigger_ready_refheight [OF rdy, of NONE] trigger_ready_counter [OF rdy, of NONE]
    by (simp add: post)
qed

section \<open>Termination of the blocking reads\<close>

text \<open>A blocking read, abstractly: any function that satisfies the loop's equation.\<close>

lemma blocking_wait:
  fixes f :: "'w::len word VarioMS5611 \<Rightarrow> world \<Rightarrow> (32 word \<times> 'w word VarioMS5611 \<times> world) option"
  assumes eq: "\<And>st w. f st w =
      (case triggerReadValues k st w of
         (r, st', w') \<Rightarrow> if r then Some (g st', st', w') else f st' (delay 1 w'))"
    and "millis w \<le> nextRead st" and "unat (nextRead st) + 1 < 2 ^ 32"
  shows "f st w = f st (w\<lparr>clock := nextRead st + 1\<rparr>)"
  using assms(2,3)
proof (induction "unat (nextRead st) - unat (clock w)" arbitrary: w)
  case 0
  then have c: "clock w = nextRead st"
    by (simp add: millis_def word_le_nat_alt word_unat_eq_iff)
  have "f st w = f st (delay 1 w)"
    using "0.prems"(1) by (subst eq) (simp add: trigger_not_ready not_less [symmetric])
  then show ?case by (simp add: delay_def c)
next
  case (Suc n)
  then have lt: "unat (clock w) < unat (nextRead st)" by simp
  have s1: "f st w = f st (delay 1 w)"
    using Suc.prems(1) by (subst eq) (simp add: trigger_not_ready not_less [symmetric])
  have u: "unat (clock w + 1) = unat (clock w) + 1"
    using lt Suc.prems(2) by (simp add: unat_word_ariths)
  have "millis (delay 1 w) \<le> nextRead st"
    using lt u by (simp add: millis_def delay_def word_le_nat_alt)
  moreover have "n = unat (nextRead st) - unat (clock (delay 1 w))"
    using Suc.hyps(2) u by (simp add: delay_def)
  ultimately have "f st (delay 1 w) = f st ((delay 1 w)\<lparr>clock := nextRead st + 1\<rparr>)"
    using Suc.hyps(1) Suc.prems(2) by blast
  with s1 show ?case by (simp add: delay_def)
qed

lemma blocking_until_ready:
  fixes f :: "'w::len word VarioMS5611 \<Rightarrow> world \<Rightarrow> (32 word \<times> 'w word VarioMS5611 \<times> world) option"
  assumes eq: "\<And>st w. f st w =
      (case triggerReadValues k st w of
         (r, st', w') \<Rightarrow> if r then Some (g st', st', w') else f st' (delay 1 w'))"
    and "unat (clock w) \<le> B" and "unat (nextRead st) < B" and "B < 2 ^ 32"
  shows "\<exists>w0. f st w = f st w0 \<and> nextRead st < millis w0 \<and> unat (clock w0) \<le> B"
proof (cases "nextRead st < millis w")
  case True
  with assms(2) show ?thesis by blast
next
  case False
  then have le: "millis w \<le> nextRead st" by simp
  have n: "unat (nextRead st) + 1 < 2 ^ 32" using assms(3,4) by simp
  then have u: "unat (nextRead st + 1) = unat (nextRead st) + 1"
    by (simp add: unat_word_ariths)
  let ?w0 = "w\<lparr>clock := nextRead st + 1\<rparr>"
  have "f st w = f st ?w0" by (rule blocking_wait [OF eq le n])
  moreover have "nextRead st < millis ?w0"
    using u by (simp add: millis_def word_less_nat_alt)
  moreover have "unat (clock ?w0) \<le> B" using u assms(3) by simp
  ultimately show ?thesis by blast
qed

lemma blocking_read_returns:
  fixes f :: "'w::len word VarioMS5611 \<Rightarrow> world \<Rightarrow> (32 word \<times> 'w word VarioMS5611 \<times> world) option"
  assumes eq: "\<And>st w. f st w =
      (case triggerReadValues k st w of
         (r, st', w') \<Rightarrow> if r then Some (g st', st', w') else f st' (delay 1 w'))"
    and k: "k \<noteq> NONE"
    and c: "unat (clock w) \<le> B" and n: "unat (nextRead st) < B"
    and B: "B + 2 * (unat (myct st) + 1) < 2 ^ 32"
  shows "\<exists>v st' w'. f st w = Some (v, st', w') \<and> myct st' = myct st
           \<and> unat (clock w') \<le> B + 2 * (unat (myct st) + 1)
           \<and> unat (nextRead st') < B + 2 * (unat (myct st) + 1)"
proof -
  let ?ct = "unat (myct st)"
  have B': "B < 2 ^ 32" using B by simp
  from blocking_until_ready [OF eq c n B'] obtain w0 where
    f0: "f st w = f st w0" and r0: "nextRead st < millis w0" and c0: "unat (clock w0) \<le> B"
    by blast
  obtain r st1 w1 where t: "triggerReadValues k st w0 = (r, st1, w1)"
    by (cases "triggerReadValues k st w0")
  then have st1: "st1 = fst (snd (triggerReadValues k st w0))"
    and w1: "w1 = snd (snd (triggerReadValues k st w0))" by simp_all
  have ct1: "myct st1 = myct st" unfolding st1 by (rule trigger_ready_ct [OF r0])
  have cl1: "clock w1 = clock w0" unfolding w1 by (rule trigger_ready_clock [OF r0])
  have nr1: "nextRead st1 = clock w0 + ucast (myct st)"
    unfolding st1 using trigger_ready_nextRead [OF r0, of k] by (simp add: millis_def)
  have p1: "myPendingValueType st1 = k"
    unfolding st1 using trigger_ready_pending [OF r0, of k] k by simp
  have nr1b: "unat (nextRead st1) \<le> unat (clock w0) + ?ct"
    unfolding nr1 using unat_ucast_8_32 [of "myct st"] by (simp add: unat_word_ariths)
  show ?thesis
  proof (cases r)
    case True
    with t have "f st w0 = Some (g st1, st1, w1)" by (subst eq) simp
    with f0 ct1 cl1 c0 nr1b show ?thesis by auto
  next
    case False
    with t have f1: "f st w0 = f st1 (delay 1 w1)" by (subst eq) simp
    have c2: "unat (clock (delay 1 w1)) \<le> B + ?ct + 1"
      using c0 cl1 B by (simp add: delay_def unat_word_ariths)
    have n2: "unat (nextRead st1) < B + ?ct + 1" using nr1b c0 by simp
    have B2: "B + ?ct + 1 < 2 ^ 32" using B by simp
    from blocking_until_ready [OF eq c2 n2 B2] obtain w3 where
      f3: "f st1 (delay 1 w1) = f st1 w3" and r3: "nextRead st1 < millis w3"
      and c3: "unat (clock w3) \<le> B + ?ct + 1"
      by blast
    obtain r' st4 w4 where t': "triggerReadValues k st1 w3 = (r', st4, w4)"
      by (cases "triggerReadValues k st1 w3")
    then have st4: "st4 = fst (snd (triggerReadValues k st1 w3))"
      and w4: "w4 = snd (snd (triggerReadValues k st1 w3))"
      and r': "r' = fst (triggerReadValues k st1 w3)" by simp_all
    have "r'" unfolding r' using trigger_ready_ret [OF r3, of k] p1 by simp
    with t' have f4: "f st1 w3 = Some (g st4, st4, w4)" by (subst eq) simp
    have ct4: "myct st4 = myct st" unfolding st4 using trigger_ready_ct [OF r3, of k] ct1 by simp
    have cl4: "clock w4 = clock w3" unfolding w4 by (rule trigger_ready_clock [OF r3])
    have nr4: "nextRead st4 = clock w3 + ucast (myct st)"
      unfolding st4 using trigger_ready_nextRead [OF r3, of k] ct1 by (simp add: millis_def)
    have nr4b: "unat (nextRead st4) \<le> unat (clock w3) + ?ct"
      unfolding nr4 using unat_ucast_8_32 [of "myct st"] by (simp add: unat_word_ariths)
    from f0 f1 f3 f4 have "f st w = Some (g st4, st4, w4)" by simp
    with ct4 cl4 c3 nr4b show ?thesis by auto
  qed
qed

lemma readRawTemperature_returns:
  assumes "unat (clock w) \<le> B" and "unat (nextRead st) < B"
    and "B + 2 * (unat (myct st) + 1) < 2 ^ 32"
  shows "\<exists>v st' w'. readRawTemperature st w = Some (v, st', w') \<and> myct st' = myct st
           \<and> unat (clock w') \<le> B + 2 * (unat (myct st) + 1)
           \<and> unat (nextRead st') < B + 2 * (unat (myct st) + 1)"
  by (rule blocking_read_returns [where k = DIGITAL_TEMPERATURE_VALUE
        and g = myRawTemperatureVal_D2, OF readRawTemperature.simps _ assms]) simp

lemma readRawPressure_returns:
  assumes "unat (clock w) \<le> B" and "unat (nextRead st) < B"
    and "B + 2 * (unat (myct st) + 1) < 2 ^ 32"
  shows "\<exists>v st' w'. readRawPressure st w = Some (v, st', w') \<and> myct st' = myct st
           \<and> unat (clock w') \<le> B + 2 * (unat (myct st) + 1)
           \<and> unat (nextRead st') < B + 2 * (unat (myct st) + 1)"
  by (rule blocking_read_returns [where k = DIGITAL_PRESSURE_VALUE
        and g = myRawPressureVal_D1, OF readRawPressure.simps _ assms]) simp

lemma readPressure_returns:
  assumes "unat (clock w) \<le> B" and "unat (nextRead st) < B"
    and "B + 4 * (unat (myct st) + 1) < 2 ^ 32"
  shows "\<exists>p st' w'. readPressure aCompensation st w = Some (p, st', w') \<and> myct st' = myct st
           \<and> unat (clock w') \<le> B + 4 * (unat (myct st) + 1)
           \<and> unat (nextRead st') < B + 4 * (unat (myct st) + 1)"
proof -
  let ?d = "2 * (unat (myct st) + 1)"
  have B1: "B + ?d < 2 ^ 32" using assms(3) by simp
  from readRawPressure_returns [OF assms(1,2) B1] obtain D1 sa wa where
    a: "readRawPressure st w = Some (D1, sa, wa)" and cta: "myct sa = myct st"
    and ca: "unat (clock wa) \<le> B + ?d" and na: "unat (nextRead sa) < B + ?d"
    by blast
  have B2: "(B + ?d) + 2 * (unat (myct sa) + 1) < 2 ^ 32" using assms(3) cta by simp
  from readRawTemperature_returns [OF ca na B2] obtain D2 sb wb where
    b: "readRawTemperature sa wa = Some (D2, sb, wb)" and ctb: "myct sb = myct st"
    and cb: "unat (clock wb) \<le> B + 4 * (unat (myct st) + 1)"
    and nb: "unat (nextRead sb) < B + 4 * (unat (myct st) + 1)"
    using cta by auto
  show ?thesis
    using a b ctb cb nb by (simp add: readPressure_def Let_def)
qed

lemma ex_hundredth: "\<exists>T::real. a = T * 100"
  by (rule exI [of _ "a / 100"]) simp

lemma readTemperature_returns:
  assumes "unat (clock w) \<le> B" and "unat (nextRead st) < B"
    and "B + 2 * (unat (myct st) + 1) < 2 ^ 32"
  shows "\<exists>T st' w'. readTemperature aCompensation st w = Some (T, st', w') \<and> myct st' = myct st
           \<and> unat (clock w') \<le> B + 2 * (unat (myct st) + 1)
           \<and> unat (nextRead st') < B + 2 * (unat (myct st) + 1)"
proof -
  from readRawTemperature_returns [OF assms] obtain D2 sa wa where
    "readRawTemperature st w = Some (D2, sa, wa)" "myct sa = myct st"
    "unat (clock wa) \<le> B + 2 * (unat (myct st) + 1)"
    "unat (nextRead sa) < B + 2 * (unat (myct st) + 1)"
    by blast
  then show ?thesis
    unfolding readTemperature_def Let_def by (cases aCompensation) (auto simp: ex_hundredth)
qed

lemma begin_loop_returns:
  assumes "unat (clock w) \<le> B" and "unat (nextRead st) < B"
    and "B + n * (4 * (unat (myct st) + 1)) < 2 ^ 32"
  shows "\<exists>st' w'. begin_loop n st w = Some (st', w') \<and> myct st' = myct st
           \<and> unat (clock w') \<le> B + n * (4 * (unat (myct st) + 1))
           \<and> unat (nextRead st') < B + n * (4 * (unat (myct st) + 1))"
  using assms
proof (induction n arbitrary: st w B)
  case 0
  then show ?case by simp
next
  case (Suc n)
  let ?d = "4 * (unat (myct st) + 1)"
  have B1: "B + ?d < 2 ^ 32" using Suc.prems(3) by simp
  from readPressure_returns [OF Suc.prems(1,2) B1, of True] obtain p sa wa where
    a: "readPressure True st w = Some (p, sa, wa)" and cta: "myct sa = myct st"
    and ca: "unat (clock wa) \<le> B + ?d" and na: "unat (nextRead sa) < B + ?d"
    by blast
  let ?sa = "sa\<lparr>mySmoothedPressureVal := int_to_double p\<rparr>"
  have na': "unat (nextRead ?sa) < B + ?d" using na by simp
  have B2: "(B + ?d) + n * (4 * (unat (myct ?sa) + 1)) < 2 ^ 32"
    using Suc.prems(3) cta by (simp add: algebra_simps)
  from Suc.IH [OF ca na' B2] cta a show ?case
    by (auto simp: algebra_simps)
qed

lemma setOversampling_fields:
  "unat (myct (setOversampling osr st)) \<le> 10"
  "nextRead (setOversampling osr st) = nextRead st"
  by (cases osr; simp add: setOversampling_def)+

lemma readPROM_loop_fields:
  "myct (fst (readPROM_loop n offset st w)) = myct st
   \<and> nextRead (fst (readPROM_loop n offset st w)) = nextRead st
   \<and> clock (snd (readPROM_loop n offset st w)) = clock w"
proof (induction n arbitrary: offset st w)
  case 0
  then show ?case by simp
next
  case (Suc n)
  show ?case
    by (simp add: Suc.IH case_prod_beta readRegister16_def Wire_write_def Wire_read_def Let_def)
qed

lemma vario_begin_never_false:
  "vario_begin aSamplingRate st w = Some (r, st', w') \<Longrightarrow> r"
  by (auto simp: vario_begin_def Let_def split: option.splits prod.splits)

lemma vario_begin_returns:
  assumes "unat (millis w) + 2400 < 2 ^ 32" and "unat (nextRead st) + 2400 < 2 ^ 32"
  shows "\<exists>st' w'. vario_begin aSamplingRate st w = Some (True, st', w')"
proof -
  let ?st1 = "setOversampling aSamplingRate st"
  let ?w2 = "delay 100 (reset w)"
  obtain st2 w3 where p: "readPROM ?st1 ?w2 = (st2, w3)" by (cases "readPROM ?st1 ?w2")
  from readPROM_loop_fields [of 6 0 ?st1 ?w2] p
  have ct2: "myct st2 = myct ?st1" and n2: "nextRead st2 = nextRead st"
    and c3: "clock w3 = clock w + 100"
    by (simp_all add: readPROM_def setOversampling_fields delay_def reset_def Wire_write_def)
  let ?st3 = "st2\<lparr>myPendingValueType := NONE, myPressureSmoothingFactor := 0.9\<rparr>"
  define ct where "ct = unat (myct ?st3)"
  have ct: "ct \<le> 10" unfolding ct_def using ct2 setOversampling_fields(1) [of aSamplingRate st]
    by simp
  define B where "B = max (unat (clock w) + 100) (unat (nextRead st) + 1)"
  have Bb: "B + 2300 < 2 ^ 32" using assms unfolding B_def millis_def by simp
  have c: "unat (clock w3) \<le> B"
    unfolding c3 B_def using assms(1) by (simp add: unat_word_ariths millis_def)
  have n: "unat (nextRead ?st3) < B" unfolding B_def using n2 by simp
  have d: "4 * (ct + 1) \<le> 44" "2 * (ct + 1) \<le> 22" using ct by simp_all
  have B1: "B + 50 * (4 * (unat (myct ?st3) + 1)) < 2 ^ 32"
    using Bb d unfolding ct_def by simp
  from begin_loop_returns [OF c n B1] obtain st4 w4 where
    l: "begin_loop 50 ?st3 w3 = Some (st4, w4)" and ct4: "unat (myct st4) = ct"
    and c4: "unat (clock w4) \<le> B + 50 * (4 * (ct + 1))"
    and n4: "unat (nextRead st4) < B + 50 * (4 * (ct + 1))"
    unfolding ct_def by auto
  have B4: "(B + 50 * (4 * (ct + 1))) + 2 * (unat (myct st4) + 1) < 2 ^ 32"
    using Bb d ct4 by simp
  from readRawTemperature_returns [OF c4 n4 B4] obtain D2 st5 w5 where
    r: "readRawTemperature st4 w4 = Some (D2, st5, w5)" and ct5: "unat (myct st5) = ct"
    and c5: "unat (clock w5) \<le> B + 50 * (4 * (ct + 1)) + 2 * (ct + 1)"
    and n5: "unat (nextRead st5) < B + 50 * (4 * (ct + 1)) + 2 * (ct + 1)"
    using ct4 by auto
  let ?st6 = "st5\<lparr>myRawTemperatureVal_D2 := D2, myVerticalSpeed := 0,
                   myVerticalSpeedSmoothingFactor := 0.9\<rparr>"
  have n6: "unat (nextRead ?st6) < B + 50 * (4 * (ct + 1)) + 2 * (ct + 1)" using n5 by simp
  have B6: "(B + 50 * (4 * (ct + 1)) + 2 * (ct + 1)) + 2 * (unat (myct ?st6) + 1) < 2 ^ 32"
    using Bb d ct5 by simp
  from readTemperature_returns [OF c5 n6 B6, of True] obtain T st7 w7 where
    t: "readTemperature True ?st6 w5 = Some (T, st7, w7)"
    by blast
  show ?thesis
    using p l r t by (simp add: vario_begin_def Let_def)
qed

lemma trigger_ready_raw_temperature:
  "nextRead st < millis w \<Longrightarrow> myPendingValueType st = DIGITAL_TEMPERATURE_VALUE \<Longrightarrow>
   myRawTemperatureVal_D2 (fst (snd (triggerReadValues req st w)))
     = fst (readRegister24 MS5611_CMD_ADC_READ w)"
  by (simp add: triggerReadValues_def Let_def case_prod_beta step_fields)

lemma trigger_ready_raw_pressure:
  "nextRead st < millis w \<Longrightarrow> myPendingValueType st = DIGITAL_PRESSURE_VALUE \<Longrightarrow>
   myRawPressureVal_D1 (fst (snd (triggerReadValues req st w)))
     = fst (readRegister24 MS5611_CMD_ADC_READ w)"
  by (simp add: triggerReadValues_def Let_def case_prod_beta step_fields)

lemma readRegister24_pos:
  "wire_pos (snd (readRegister24 reg w)) = wire_pos w + 3"
  by (simp add: readRegister24_def Wire_write_def Wire_read_def Let_def)

lemma trigger_ready_pos:
  "nextRead st < millis w \<Longrightarrow>
   wire_pos (snd (snd (triggerReadValues req st w)))
     = (if myPendingValueType st = DIGITAL_PRESSURE_VALUE
           \<or> myPendingValueType st = DIGITAL_TEMPERATURE_VALUE
        then wire_pos w + 3 else wire_pos w)"
  by (simp add: triggerReadValues_def Let_def case_prod_beta step_fields Wire_write_def
      readRegister24_pos)

lemma trigger_ready_raw_kept:
  "nextRead st < millis w \<Longrightarrow> myPendingValueType st \<noteq> DIGITAL_PRESSURE_VALUE \<Longrightarrow>
   myRawPressureVal_D1 (fst (snd (triggerReadValues req st w))) = myRawPressureVal_D1 st"
  "nextRead st < millis w \<Longrightarrow> myPendingValueType st \<noteq> DIGITAL_TEMPERATURE_VALUE \<Longrightarrow>
   myRawTemperatureVal_D2 (fst (snd (triggerReadValues req st w))) = myRawTemperatureVal_D2 st"
  by (simp_all add: triggerReadValues_def Let_def case_prod_beta step_fields)

section \<open>Properties of the acquisition step\<close>

text \<open>
  C7.  A call of the acquisition step while \<^verbatim>\<open>millis()\<close> has not passed the stored deadline
  \<^verbatim>\<open>nextRead\<close> returns false and changes nothing: the whole state, deadline included, and
  the whole world, the bytes written to the bus included, are as before.
\<close>

theorem triggerReadValues_before_deadline:
  assumes "millis w \<le> nextRead st"
  shows "triggerReadValues aRequestType st w = (False, st, w)"
  using assms by (simp add: triggerReadValues_def not_less [symmetric])

theorem triggerReadValues_before_deadline_witness:
  "millis (example_world\<lparr>clock := 2290\<rparr>) \<le> nextRead example_vario
   \<and> triggerReadValues NONE example_vario (example_world\<lparr>clock := 2290\<rparr>)
       = (False, example_vario, example_world\<lparr>clock := 2290\<rparr>)"
proof -
  have h: "millis (example_world\<lparr>clock := 2290\<rparr>) \<le> nextRead example_vario"
    by (simp add: millis_def example_vario_def example_world_def)
  from triggerReadValues_before_deadline [OF h, of NONE] h show ?thesis by simp
qed



text \<open>
  C5.  The claim is that the reference height is recomputed on exactly one cycle of an
  execution.  The code recomputes it whenever the incremented counter equals 100, and the
  counter is an \<^verbatim>\<open>unsigned int\<close> that wraps.  On a board with 16-bit \<^verbatim>\<open>int\<close>, in the execution
  that calls \<^verbatim>\<open>run()\<close> every 20 ms from the example state, all 65636 calls are ready cycles,
  and both the 100th and the 65636th (indices 99 and 65635) find the counter at 100 and
  assign \<^verbatim>\<open>calcAltitude(getSmoothedPressure())\<close> to the reference height.
\<close>

theorem reference_height_recomputed_after_counter_wrap:
  "length (ready_cycles (replicate 65636 20) example_vario example_world) = 65636
   \<and> myRunCnt (fst (snd (ready_cycles (replicate 65636 20) example_vario example_world ! 99))) = 100
   \<and> myReferenceHeight (fst (snd (ready_cycles (replicate 65636 20) example_vario example_world ! 99)))
       = calcAltitude (getSmoothedPressure
           (fst (ready_cycles (replicate 65636 20) example_vario example_world ! 99))) PRESSURE_SEALEVEL
   \<and> myRunCnt (fst (snd (ready_cycles (replicate 65636 20) example_vario example_world ! 65635))) = 100
   \<and> myReferenceHeight (fst (snd (ready_cycles (replicate 65636 20) example_vario example_world ! 65635)))
       = calcAltitude (getSmoothedPressure
           (fst (ready_cycles (replicate 65636 20) example_vario example_world ! 65635))) PRESSURE_SEALEVEL"
proof -
  let ?cs = "ready_cycles (replicate 65636 20) example_vario example_world"
  have len: "length ?cs = 65636" by (rule example_all_ready) simp
  have a: "myRunCnt (fst (snd (?cs ! 99))) = 100"
    using requested_nth(2) [of 99 "replicate 65636 20" example_vario example_world] len
    by (simp add: example_vario_def)
  have b: "myRunCnt (fst (snd (?cs ! 65635))) = 100"
    using requested_nth(2) [of 65635 "replicate 65636 20" example_vario example_world] len
    by (simp add: example_vario_def)
  have "99 < length ?cs" "65635 < length ?cs" using len by simp_all
  from ready_cycle_reference_height [OF this(1)] ready_cycle_reference_height [OF this(2)] a b len
  show ?thesis by simp
qed

text \<open>
  C6.  The claim that the step returns true only if the conversion just completed matches
  the requested kind fails for the request \<^verbatim>\<open>NONE\<close> that \<^verbatim>\<open>run()\<close> passes: on an object on
  which \<^verbatim>\<open>begin\<close> has not been called nothing is pending, the comparison
  \<^verbatim>\<open>aRequestType == myPendingValueType\<close> holds, and the first call of \<^verbatim>\<open>run()\<close> after the
  clock has left 0 returns true although it reads nothing from the bus: it only sends the
  command \<open>0x40\<close> of the next conversion, and both raw values are as before.
\<close>

theorem run_on_fresh_object_returns_true_without_conversion:
  "fst (triggerReadValues NONE fresh_vario example_world)
   \<and> myPendingValueType fresh_vario = NONE
   \<and> wire_pos (snd (snd (triggerReadValues NONE fresh_vario example_world))) = wire_pos example_world
   \<and> wire_tx (snd (snd (triggerReadValues NONE fresh_vario example_world))) = [0x40]
   \<and> myRawPressureVal_D1 (fst (snd (triggerReadValues NONE fresh_vario example_world)))
       = myRawPressureVal_D1 fresh_vario
   \<and> myRawTemperatureVal_D2 (fst (snd (triggerReadValues NONE fresh_vario example_world)))
       = myRawTemperatureVal_D2 fresh_vario"
  by (simp add: triggerReadValues_def Let_def fresh_vario_def example_world_def millis_def
      Wire_write_def MS5611_CMD_CONV_D1_def)

text \<open>
  C6, as amended.  The acquisition step returns true exactly on a call that finds the
  deadline passed and the requested kind equal to the kind pending at entry.  For a request
  of a temperature or a pressure that is a cycle that has just read a conversion of the
  requested kind from the bus, three bytes, into the raw value of that kind; for any other
  request it is a cycle on which nothing is pending and nothing is read.  The blocking
  reads, which spin on the step with their kind, return at the first call that has read a
  conversion of that kind, with the 24-bit value just read, and otherwise go on with the
  next call after \<^verbatim>\<open>delay(1)\<close>.
\<close>

theorem triggerReadValues_true_iff_request_is_pending_kind:
  "(fst (triggerReadValues aRequestType st w)
      \<longleftrightarrow> nextRead st < millis w \<and> aRequestType = myPendingValueType st)
   \<and> (fst (triggerReadValues aRequestType st w) \<and> aRequestType = DIGITAL_TEMPERATURE_VALUE \<longrightarrow>
         myRawTemperatureVal_D2 (fst (snd (triggerReadValues aRequestType st w)))
           = fst (readRegister24 MS5611_CMD_ADC_READ w)
         \<and> wire_pos (snd (snd (triggerReadValues aRequestType st w))) = wire_pos w + 3)
   \<and> (fst (triggerReadValues aRequestType st w) \<and> aRequestType = DIGITAL_PRESSURE_VALUE \<longrightarrow>
         myRawPressureVal_D1 (fst (snd (triggerReadValues aRequestType st w)))
           = fst (readRegister24 MS5611_CMD_ADC_READ w)
         \<and> wire_pos (snd (snd (triggerReadValues aRequestType st w))) = wire_pos w + 3)
   \<and> (fst (triggerReadValues aRequestType st w) \<and> aRequestType \<noteq> DIGITAL_TEMPERATURE_VALUE
          \<and> aRequestType \<noteq> DIGITAL_PRESSURE_VALUE \<longrightarrow>
         wire_pos (snd (snd (triggerReadValues aRequestType st w))) = wire_pos w
         \<and> myRawTemperatureVal_D2 (fst (snd (triggerReadValues aRequestType st w)))
             = myRawTemperatureVal_D2 st
         \<and> myRawPressureVal_D1 (fst (snd (triggerReadValues aRequestType st w)))
             = myRawPressureVal_D1 st)
   \<and> readRawTemperature st w =
       (if nextRead st < millis w \<and> myPendingValueType st = DIGITAL_TEMPERATURE_VALUE
        then Some (fst (readRegister24 MS5611_CMD_ADC_READ w),
                   snd (triggerReadValues DIGITAL_TEMPERATURE_VALUE st w))
        else readRawTemperature (fst (snd (triggerReadValues DIGITAL_TEMPERATURE_VALUE st w)))
               (delay 1 (snd (snd (triggerReadValues DIGITAL_TEMPERATURE_VALUE st w)))))
   \<and> readRawPressure st w =
       (if nextRead st < millis w \<and> myPendingValueType st = DIGITAL_PRESSURE_VALUE
        then Some (fst (readRegister24 MS5611_CMD_ADC_READ w),
                   snd (triggerReadValues DIGITAL_PRESSURE_VALUE st w))
        else readRawPressure (fst (snd (triggerReadValues DIGITAL_PRESSURE_VALUE st w)))
               (delay 1 (snd (snd (triggerReadValues DIGITAL_PRESSURE_VALUE st w)))))"
proof -
  have ret: "fst (triggerReadValues req st w)
      \<longleftrightarrow> nextRead st < millis w \<and> req = myPendingValueType st" for req
  proof (cases "nextRead st < millis w")
    case True
    then show ?thesis by (simp add: trigger_ready_ret)
  next
    case False
    then show ?thesis by (simp add: trigger_not_ready)
  qed
  have rt: "myRawTemperatureVal_D2 (fst (snd (triggerReadValues aRequestType st w)))
           = fst (readRegister24 MS5611_CMD_ADC_READ w)
         \<and> wire_pos (snd (snd (triggerReadValues aRequestType st w))) = wire_pos w + 3"
    if "fst (triggerReadValues aRequestType st w)" "aRequestType = DIGITAL_TEMPERATURE_VALUE"
    using that ret [of aRequestType]
    by (simp add: trigger_ready_raw_temperature trigger_ready_pos)
  have rp: "myRawPressureVal_D1 (fst (snd (triggerReadValues aRequestType st w)))
           = fst (readRegister24 MS5611_CMD_ADC_READ w)
         \<and> wire_pos (snd (snd (triggerReadValues aRequestType st w))) = wire_pos w + 3"
    if "fst (triggerReadValues aRequestType st w)" "aRequestType = DIGITAL_PRESSURE_VALUE"
    using that ret [of aRequestType]
    by (simp add: trigger_ready_raw_pressure trigger_ready_pos)
  have rn: "wire_pos (snd (snd (triggerReadValues aRequestType st w))) = wire_pos w
         \<and> myRawTemperatureVal_D2 (fst (snd (triggerReadValues aRequestType st w)))
             = myRawTemperatureVal_D2 st
         \<and> myRawPressureVal_D1 (fst (snd (triggerReadValues aRequestType st w)))
             = myRawPressureVal_D1 st"
    if "fst (triggerReadValues aRequestType st w)"
      "aRequestType \<noteq> DIGITAL_TEMPERATURE_VALUE" "aRequestType \<noteq> DIGITAL_PRESSURE_VALUE"
  proof -
    from that(1) ret [of aRequestType]
    have r: "nextRead st < millis w" and k: "myPendingValueType st = aRequestType" by simp_all
    from k that(2,3) have n: "myPendingValueType st \<noteq> DIGITAL_TEMPERATURE_VALUE"
      "myPendingValueType st \<noteq> DIGITAL_PRESSURE_VALUE" by simp_all
    show ?thesis
      using trigger_ready_pos [OF r, of aRequestType] trigger_ready_raw_kept(1) [OF r n(2), of aRequestType]
        trigger_ready_raw_kept(2) [OF r n(1), of aRequestType] n
      by simp
  qed
  have t: "readRawTemperature st w =
       (if nextRead st < millis w \<and> myPendingValueType st = DIGITAL_TEMPERATURE_VALUE
        then Some (fst (readRegister24 MS5611_CMD_ADC_READ w),
                   snd (triggerReadValues DIGITAL_TEMPERATURE_VALUE st w))
        else readRawTemperature (fst (snd (triggerReadValues DIGITAL_TEMPERATURE_VALUE st w)))
               (delay 1 (snd (snd (triggerReadValues DIGITAL_TEMPERATURE_VALUE st w)))))"
    by (subst readRawTemperature.simps)
       (auto simp: case_prod_beta ret [of DIGITAL_TEMPERATURE_VALUE] trigger_ready_raw_temperature)
  have p: "readRawPressure st w =
       (if nextRead st < millis w \<and> myPendingValueType st = DIGITAL_PRESSURE_VALUE
        then Some (fst (readRegister24 MS5611_CMD_ADC_READ w),
                   snd (triggerReadValues DIGITAL_PRESSURE_VALUE st w))
        else readRawPressure (fst (snd (triggerReadValues DIGITAL_PRESSURE_VALUE st w)))
               (delay 1 (snd (snd (triggerReadValues DIGITAL_PRESSURE_VALUE st w)))))"
    by (subst readRawPressure.simps)
       (auto simp: case_prod_beta ret [of DIGITAL_PRESSURE_VALUE] trigger_ready_raw_pressure)
  from ret [of aRequestType] rt rp rn t p show ?thesis by blast
qed

theorem triggerReadValues_true_iff_request_is_pending_kind_witness:
  "fst (triggerReadValues DIGITAL_TEMPERATURE_VALUE example_vario example_world)
   \<and> \<not> fst (triggerReadValues DIGITAL_PRESSURE_VALUE example_vario example_world)
   \<and> myRawTemperatureVal_D2
         (fst (snd (triggerReadValues DIGITAL_TEMPERATURE_VALUE example_vario example_world)))
       = 9085466
   \<and> wire_pos (snd (snd (triggerReadValues DIGITAL_TEMPERATURE_VALUE example_vario example_world)))
       = 3
   \<and> readRawTemperature example_vario example_world
       = Some (9085466, snd (triggerReadValues DIGITAL_TEMPERATURE_VALUE example_vario example_world))"
proof -
  have r: "nextRead example_vario < millis example_world"
    by (simp add: example_vario_def example_world_def millis_def)
  have k: "myPendingValueType example_vario = DIGITAL_TEMPERATURE_VALUE"
    by (simp add: example_vario_def)
  have v: "fst (readRegister24 MS5611_CMD_ADC_READ example_world) = 9085466"
    by (simp add: readRegister24_def Wire_write_def Wire_read_def example_world_def Let_def)
  have z: "wire_pos example_world = 0" by (simp add: example_world_def)
  from triggerReadValues_true_iff_request_is_pending_kind
         [of DIGITAL_TEMPERATURE_VALUE example_vario example_world]
       triggerReadValues_true_iff_request_is_pending_kind
         [of DIGITAL_PRESSURE_VALUE example_vario example_world]
       r k v z
  show ?thesis by simp
qed

section \<open>Properties of the initialisation\<close>

text \<open>
  C10.  For every oversampling argument \<^verbatim>\<open>begin\<close> has true as its only result.  It does
  return whenever it is called at least 2400 ms before the millisecond clock or the stored
  deadline would wrap around, as at power-up; the retry loop around it in \<^verbatim>\<open>setup()\<close> then
  executes its body zero times.
\<close>

theorem vario_begin_returns_true:
  "(\<forall>r st' w'. vario_begin aSamplingRate st w = Some (r, st', w') \<longrightarrow> r)
   \<and> (unat (millis w) + 2400 < 2 ^ 32 \<and> unat (nextRead st) + 2400 < 2 ^ 32 \<longrightarrow>
        (\<exists>st' w'. vario_begin aSamplingRate st w = Some (True, st', w')
                 \<and> (aSamplingRate = MS5611_ULTRA_HIGH_RES \<longrightarrow>
                      setup_retry 0 st w = Some (0, st', w'))))"
proof (intro conjI allI impI)
  fix r st' w'
  assume "vario_begin aSamplingRate st w = Some (r, st', w')"
  then show r by (rule vario_begin_never_false)
next
  assume "unat (millis w) + 2400 < 2 ^ 32 \<and> unat (nextRead st) + 2400 < 2 ^ 32"
  then obtain st' w' where b: "vario_begin aSamplingRate st w = Some (True, st', w')"
    using vario_begin_returns by blast
  then have "aSamplingRate = MS5611_ULTRA_HIGH_RES \<longrightarrow> setup_retry 0 st w = Some (0, st', w')"
    by (subst setup_retry.simps) auto
  with b show "\<exists>st' w'. vario_begin aSamplingRate st w = Some (True, st', w')
                 \<and> (aSamplingRate = MS5611_ULTRA_HIGH_RES \<longrightarrow>
                      setup_retry 0 st w = Some (0, st', w'))"
    by blast
qed

theorem vario_begin_returns_true_witness:
  "unat (millis example_world) + 2400 < 2 ^ 32 \<and> unat (nextRead example_vario) + 2400 < 2 ^ 32
   \<and> (\<exists>st' w'. vario_begin MS5611_ULTRA_HIGH_RES example_vario example_world = Some (True, st', w')
               \<and> setup_retry 0 example_vario example_world = Some (0, st', w'))"
proof -
  have h: "unat (millis example_world) + 2400 < 2 ^ 32 \<and> unat (nextRead example_vario) + 2400 < 2 ^ 32"
    by (simp add: example_vario_def example_world_def millis_def)
  with vario_begin_returns_true [of MS5611_ULTRA_HIGH_RES example_vario example_world]
  show ?thesis by blast
qed

end
